theory Spec2Isabelle
  imports Complex_Main
begin

section \<open>Python strings\<close>

text \<open>
  A Python \<open>str\<close> is a sequence of Unicode code points; it is modelled as a list of
  natural numbers, so that \<open>len\<close>, slicing and iteration count what Python counts.
  \<open>py\<close> turns a literal into such a list.
\<close>

type_synonym pystr = "nat list"

definition py :: "string \<Rightarrow> pystr" where
  "py s = map of_char s"

text \<open>
  The character classes behind \<open>str.isalnum\<close>, \<open>str.isspace\<close>, \<open>str.isdigit\<close> and the
  decimal value used by \<open>int(...)\<close> are tables of the Python interpreter, not of this
  repository. They are parameters of every function that consults them; \<open>ascii\<close> is the
  restriction of the tables to code points below 128 and is used for concrete runs.
\<close>

record unicode =
  u_isalnum :: "nat \<Rightarrow> bool"
  u_isspace :: "nat \<Rightarrow> bool"
  u_isdigit :: "nat \<Rightarrow> bool"
  u_decimal :: "nat \<Rightarrow> nat option"

definition ascii :: unicode where
  "ascii = \<lparr>
     u_isalnum = (\<lambda>c. (48 \<le> c \<and> c \<le> 57) \<or> (65 \<le> c \<and> c \<le> 90) \<or> (97 \<le> c \<and> c \<le> 122)),
     u_isspace = (\<lambda>c. (9 \<le> c \<and> c \<le> 13) \<or> (28 \<le> c \<and> c \<le> 32)),
     u_isdigit = (\<lambda>c. 48 \<le> c \<and> c \<le> 57),
     u_decimal = (\<lambda>c. if 48 \<le> c \<and> c \<le> 57 then Some (c - 48) else None) \<rparr>"

text \<open>
  The same tables with the superscript digits of Latin-1 (U+00B2, U+00B3, U+00B9): for
  Python they are alphanumeric and \<open>isdigit\<close> accepts them, but they have no decimal value
  and \<open>int(...)\<close> rejects them.
\<close>

definition superscripts :: unicode where
  "superscripts = ascii \<lparr>
     u_isalnum := (\<lambda>c. u_isalnum ascii c \<or> c = 178 \<or> c = 179 \<or> c = 185),
     u_isdigit := (\<lambda>c. u_isdigit ascii c \<or> c = 178 \<or> c = 179 \<or> c = 185) \<rparr>"

text \<open>\<open>s.strip()\<close>: leading and trailing whitespace removed.\<close>

definition lstrip :: "unicode \<Rightarrow> pystr \<Rightarrow> pystr" where
  "lstrip U s = dropWhile (u_isspace U) s"

definition strip :: "unicode \<Rightarrow> pystr \<Rightarrow> pystr" where
  "strip U s = rev (lstrip U (rev (lstrip U s)))"

text \<open>\<open>s[:n]\<close> for an integer \<open>n\<close>; a negative bound counts from the end.\<close>

definition slice_to :: "pystr \<Rightarrow> int \<Rightarrow> pystr" where
  "slice_to s n = (if 0 \<le> n then take (nat n) s else take (length s - nat (- n)) s)"

text \<open>\<open>s.split(sep)\<close> for a one-character separator.\<close>

fun split_on :: "nat \<Rightarrow> pystr \<Rightarrow> pystr list" where
  "split_on sep [] = [[]]"
| "split_on sep (c # cs) =
     (if c = sep then [] # split_on sep cs
      else (case split_on sep cs of [] \<Rightarrow> [[c]] | w # ws \<Rightarrow> (c # w) # ws))"

section \<open>Source entities\<close>

text \<open>
  The source entities (models.py), with the fields the migrators read. A blocker row
  carries the id of the story it belongs to (\<open>Blocker.story_id\<close>, reached in the code as
  \<open>blocker.story.id\<close>); in a snapshot loaded from the database every blocker listed under
  a story has that story's id.
\<close>

record pt_task =
  task_id :: int
  task_description :: pystr
  task_complete :: bool

record pt_blocker =
  blocker_story_id :: int
  blocker_description :: pystr
  blocker_resolved :: bool

record pt_attachment =
  attachment_id :: int
  attachment_filename :: pystr
  attachment_file_path :: pystr

record pt_comment =
  comment_id :: int
  comment_text :: pystr
  comment_attachments :: "pt_attachment list"

record pt_story =
  story_id :: int
  story_name :: pystr
  story_description :: "pystr option"
  story_tasks :: "pt_task list"
  story_blockers :: "pt_blocker list"
  story_comments :: "pt_comment list"

section \<open>Name sanitising in the Linear migrators (linear/utils.py, linear/migrators/issue\_migrator.py)\<close>

text \<open>
  \<^verbatim>\<open>
  def sanitize_name(name, max_length=50):
      sanitized = "".join(c for c in name if c.isalnum() or c in [" ", "-", "_"])
      return sanitized[:max_length].strip()
  \<close>
\<close>

definition name_char_ok :: "unicode \<Rightarrow> nat \<Rightarrow> bool" where
  "name_char_ok U c = (u_isalnum U c \<or> c \<in> set [32, 45, 95])"

definition sanitize_name :: "unicode \<Rightarrow> pystr \<Rightarrow> int \<Rightarrow> pystr" where
  "sanitize_name U name max_length =
     (let sanitized = filter (name_char_ok U) name
      in strip U (slice_to sanitized max_length))"

text \<open>
  The arguments of \<open>LinearAPI.create_issue\<close> that the issue migrator fills from the story
  or task text. \<open>migrate_issue\<close> builds the request of a story, \<open>migrate_tasks\<close> the request
  of each task (a sub-issue of the story's issue); both call \<open>sanitize_name\<close> with the
  default \<open>max_length\<close> of 50.
\<close>

record issue_request =
  req_team_id :: pystr
  req_title :: pystr
  req_description :: pystr
  req_parent_id :: "pystr option"

definition story_issue_request :: "unicode \<Rightarrow> pt_story \<Rightarrow> pystr \<Rightarrow> issue_request" where
  "story_issue_request U pt_story linear_team_id =
     \<lparr> req_team_id = linear_team_id,
       req_title = sanitize_name U (story_name pt_story) 50,
       req_description = (case story_description pt_story of None \<Rightarrow> [] | Some d \<Rightarrow> d),
       req_parent_id = None \<rparr>"

definition task_issue_request :: "unicode \<Rightarrow> pt_task \<Rightarrow> pystr \<Rightarrow> pystr \<Rightarrow> issue_request" where
  "task_issue_request U pt_task parent_issue_id linear_team_id =
     \<lparr> req_team_id = linear_team_id,
       req_title = sanitize_name U (task_description pt_task) 50,
       req_description = [],
       req_parent_id = Some parent_issue_id \<rparr>"

definition task_issue_requests :: "unicode \<Rightarrow> pt_story \<Rightarrow> pystr \<Rightarrow> pystr \<Rightarrow> issue_request list" where
  "task_issue_requests U pt_story parent_issue_id linear_team_id =
     map (\<lambda>t. task_issue_request U t parent_issue_id linear_team_id) (story_tasks pt_story)"

definition login_story :: pt_story where
  "login_story = \<lparr> story_id = 7, story_name = py ''Fix: login/logout (v2)!'', story_description = None,
     story_tasks = [\<lparr> task_id = 1, task_description = py '' tidy_up? '', task_complete = False \<rparr>],
     story_blockers = [], story_comments = [] \<rparr>"

text \<open>What the claim says of a title, in its own words.\<close>

definition unpadded :: "unicode \<Rightarrow> pystr \<Rightarrow> bool" where
  "unpadded U s = (s = [] \<or> (\<not> u_isspace U (hd s) \<and> \<not> u_isspace U (last s)))"

definition is_sanitized_form :: "unicode \<Rightarrow> pystr \<Rightarrow> pystr \<Rightarrow> bool" where
  "is_sanitized_form U name title =
     (title = strip U (take 50 (filter (name_char_ok U) name))
      \<and> list_all (name_char_ok U) title
      \<and> length title \<le> 50
      \<and> unpadded U title)"

section \<open>Python exceptions and loops with effects\<close>

datatype pyerr = ValueError | IndexError | KeyError | TypeError | NameError | ZeroDivisionError

text \<open>
  A \<open>for\<close> loop whose body issues remote calls and may raise: the calls of the bodies are
  concatenated in order, and the first exception ends the loop, keeping the calls issued
  before it.
\<close>

fun for_each :: "('a \<Rightarrow> 'c list \<times> 'e option) \<Rightarrow> 'a list \<Rightarrow> 'c list \<times> 'e option" where
  "for_each body [] = ([], None)"
| "for_each body (x # xs) =
     (case body x of
        (cs, Some e) \<Rightarrow> (cs, Some e)
      | (cs, None) \<Rightarrow> (case for_each body xs of (ds, r) \<Rightarrow> (cs @ ds, r)))"

section \<open>Integers read from text\<close>

text \<open>\<open>s.isdigit()\<close>: non-empty and every character a digit.\<close>

definition str_isdigit :: "unicode \<Rightarrow> pystr \<Rightarrow> bool" where
  "str_isdigit U s = (s \<noteq> [] \<and> list_all (u_isdigit U) s)"

fun decimal_value :: "unicode \<Rightarrow> pystr \<Rightarrow> nat \<Rightarrow> nat option" where
  "decimal_value U [] acc = Some acc"
| "decimal_value U (c # cs) acc =
     (case u_decimal U c of None \<Rightarrow> None | Some d \<Rightarrow> decimal_value U cs (10 * acc + d))"

text \<open>
  \<open>int(s)\<close> for a string: surrounding whitespace is ignored, one sign is allowed, and the
  rest must be decimal digits, single underscores allowed between digits; \<open>None\<close> stands
  for the \<open>ValueError\<close> Python raises otherwise.
\<close>

definition py_int :: "unicode \<Rightarrow> pystr \<Rightarrow> int option" where
  "py_int U s =
     (let t = strip U s;
          neg = (t \<noteq> [] \<and> hd t = 45);
          body = (if t \<noteq> [] \<and> (hd t = 45 \<or> hd t = 43) then tl t else t);
          groups = split_on 95 body
      in if list_all (\<lambda>g. g \<noteq> []) groups
         then (case decimal_value U (concat groups) 0 of
                 None \<Rightarrow> None
               | Some n \<Rightarrow> Some (if neg then - int n else int n))
         else None)"

section \<open>Blockers in the Jira migrator (jira/migrators/issue\_migrator.py)\<close>

text \<open>
  The reference of a blocker, as \<open>process_blockers\<close> reads it from the description:
  \<^verbatim>\<open>
  if "#" in blocker_content:
      blocker_id = blocker_content.split("#")[1].split(" ")[0]
      if blocker_id.isdigit():
          blocker_id = int(blocker_id)
  \<close>
  The result is \<open>Inr (Some n)\<close> when a story id \<open>n\<close> was read, \<open>Inr None\<close> when the
  description holds no reference, and \<open>Inl e\<close> when the code raises \<open>e\<close>.
\<close>

definition blocker_reference :: "unicode \<Rightarrow> pystr \<Rightarrow> pyerr + int option" where
  "blocker_reference U blocker_content =
     (if 35 \<in> set blocker_content then
        (case split_on 35 blocker_content of
           _ # seg # _ \<Rightarrow>
             (case split_on 32 seg of
                blocker_id # _ \<Rightarrow>
                  if str_isdigit U blocker_id
                  then (case py_int U blocker_id of None \<Rightarrow> Inl ValueError | Some n \<Rightarrow> Inr (Some n))
                  else Inr None
              | [] \<Rightarrow> Inl IndexError)
         | _ \<Rightarrow> Inl IndexError)
      else Inr None)"

text \<open>
  \<open>process_blockers\<close>: for every unresolved blocker of every story whose reference and
  whose own story are both keys of the issue map, one \<open>create_blocker_link\<close> call with the
  blocking issue first and the blocked issue second. A failure of that call is caught
  and logged, so the function returns the calls it issued, and an exception only when
  reading a reference raised.
\<close>

datatype jira_link = CreateBlockerLink (blocker_key: pystr) (blocked_key: pystr)

definition process_blocker ::
  "unicode \<Rightarrow> (int \<rightharpoonup> pystr) \<Rightarrow> pt_story \<Rightarrow> pt_blocker \<Rightarrow> jira_link list \<times> pyerr option" where
  "process_blocker U jira_issue_map pt_story blocker =
     (if \<not> blocker_resolved blocker then
        (case blocker_reference U (blocker_description blocker) of
           Inl e \<Rightarrow> ([], Some e)
         | Inr None \<Rightarrow> ([], None)
         | Inr (Some blocker_id) \<Rightarrow>
             (case (jira_issue_map blocker_id, jira_issue_map (story_id pt_story)) of
                (Some k1, Some k2) \<Rightarrow> ([CreateBlockerLink k1 k2], None)
              | _ \<Rightarrow> ([], None)))
      else ([], None))"

definition process_blockers ::
  "unicode \<Rightarrow> (int \<rightharpoonup> pystr) \<Rightarrow> pt_story list \<Rightarrow> jira_link list \<times> pyerr option" where
  "process_blockers U jira_issue_map pt_stories =
     for_each (\<lambda>pt_story. for_each (process_blocker U jira_issue_map pt_story) (story_blockers pt_story))
       pt_stories"

text \<open>
  The reference as the specification words it: the first \<open>#\<close> that is followed by a
  digit, and the run of digits after it.
\<close>

fun first_hash_digits :: "unicode \<Rightarrow> pystr \<Rightarrow> pystr option" where
  "first_hash_digits U [] = None"
| "first_hash_digits U (c # cs) =
     (if c = 35 \<and> takeWhile (u_isdigit U) cs \<noteq> [] then Some (takeWhile (u_isdigit U) cs)
      else first_hash_digits U cs)"

definition spec_blocker_reference :: "unicode \<Rightarrow> pystr \<Rightarrow> pyerr + int option" where
  "spec_blocker_reference U blocker_content =
     (case first_hash_digits U blocker_content of
        None \<Rightarrow> Inr None
      | Some ds \<Rightarrow> (case py_int U ds of None \<Rightarrow> Inl ValueError | Some n \<Rightarrow> Inr (Some n)))"

text \<open>
  The text the code looks at: what stands between the first \<open>#\<close> and the next space or
  \<open>#\<close>, or the end of the description.
\<close>

definition token_after_hash :: "pystr \<Rightarrow> pystr" where
  "token_after_hash s = takeWhile (\<lambda>c. c \<noteq> 32 \<and> c \<noteq> 35) (tl (dropWhile (\<lambda>c. c \<noteq> 35) s))"

section \<open>Blockers in the Linear migrator (linear/migrators/relation\_migrator.py)\<close>

text \<open>
  \<open>migrate_story_relations\<close>: the issue of the story is looked up, then for every
  unresolved blocker the issue of \<open>blocker.story\<close>, and a relation of type \<open>blocks\<close> is
  requested from that issue to the story's issue. A failing request raises
  \<open>RelationMigrationError\<close> and ends the story; \<open>migrate_relations\<close> catches it and goes on
  with the next story. \<open>relation_ok\<close> says which requests the remote side accepts.
\<close>

datatype linear_relation =
  CreateIssueRelation (rel_issue_id: pystr) (rel_related_issue_id: pystr) (rel_type: pystr)

datatype relation_error = RelationMigrationError

definition migrate_blocker ::
  "(linear_relation \<Rightarrow> bool) \<Rightarrow> (int \<rightharpoonup> pystr) \<Rightarrow> pystr \<Rightarrow> pt_blocker
     \<Rightarrow> linear_relation list \<times> relation_error option" where
  "migrate_blocker relation_ok issue_map linear_issue_id blocker =
     (if blocker_resolved blocker then ([], None)
      else (case issue_map (blocker_story_id blocker) of
              None \<Rightarrow> ([], None)
            | Some linear_blocker_issue_id \<Rightarrow>
                (let call = CreateIssueRelation linear_blocker_issue_id linear_issue_id (py ''blocks'')
                 in ([call], if relation_ok call then None else Some RelationMigrationError))))"

definition migrate_story_relations ::
  "(linear_relation \<Rightarrow> bool) \<Rightarrow> (int \<rightharpoonup> pystr) \<Rightarrow> pt_story
     \<Rightarrow> linear_relation list \<times> relation_error option" where
  "migrate_story_relations relation_ok issue_map pt_story =
     (case issue_map (story_id pt_story) of
        None \<Rightarrow> ([], None)
      | Some linear_issue_id \<Rightarrow>
          for_each (migrate_blocker relation_ok issue_map linear_issue_id) (story_blockers pt_story))"

definition migrate_relations ::
  "(linear_relation \<Rightarrow> bool) \<Rightarrow> (int \<rightharpoonup> pystr) \<Rightarrow> pt_story list \<Rightarrow> linear_relation list" where
  "migrate_relations relation_ok issue_map pt_stories =
     concat (map (\<lambda>pt_story. fst (migrate_story_relations relation_ok issue_map pt_story)) pt_stories)"

text \<open>The two stories of the specification's example.\<close>

definition story42 :: pt_story where
  "story42 = \<lparr> story_id = 42, story_name = py ''Review'', story_description = None,
     story_tasks = [], story_blockers = [], story_comments = [] \<rparr>"

definition story43 :: pt_story where
  "story43 = \<lparr> story_id = 43, story_name = py ''Release'', story_description = None,
     story_tasks = [],
     story_blockers = [\<lparr> blocker_story_id = 43,
                         blocker_description = py ''Blocked by #42 pending review'',
                         blocker_resolved = False \<rparr>],
     story_comments = [] \<rparr>"

text \<open>A story whose blocker refers to a story by a superscript two.\<close>

definition story44 :: pt_story where
  "story44 = \<lparr> story_id = 44, story_name = py ''Deploy'', story_description = None,
     story_tasks = [],
     story_blockers = [\<lparr> blocker_story_id = 44,
                         blocker_description = py ''Blocked by #'' @ [178],
                         blocker_resolved = False \<rparr>],
     story_comments = [] \<rparr>"

section \<open>Rate limiter (api.py)\<close>

text \<open>
  \<^verbatim>\<open>
  async def acquire(self):
      current = time.time()
      time_passed = current - self.last_check
      self.last_check = current
      self.allowance += time_passed * (self.rate / self.interval)
      if self.allowance > self.rate:
          self.allowance = self.rate
      if self.allowance < 1:
          await asyncio.sleep(1 - self.allowance)
          self.allowance = 0
      else:
          self.allowance -= 1
  \<close>
  The numbers of the limiter are Python floats (and the integers given to the
  constructor). Their arithmetic belongs to the interpreter, so the function is written
  over any type of numbers with its operations: sum, difference, product, quotient
  (\<open>None\<close> when Python raises \<open>ZeroDivisionError\<close>), comparison, and the constants 0 and 1.
  The clock reading \<open>current\<close> is an argument. The result is the time the caller is
  suspended for (\<open>None\<close> when \<open>asyncio.sleep\<close> is not called) or the exception raised,
  together with the limiter after the call. The capacity of the bucket is \<open>rate\<close>.
\<close>

record 'f arith =
  f_add :: "'f \<Rightarrow> 'f \<Rightarrow> 'f"
  f_sub :: "'f \<Rightarrow> 'f \<Rightarrow> 'f"
  f_mul :: "'f \<Rightarrow> 'f \<Rightarrow> 'f"
  f_div :: "'f \<Rightarrow> 'f \<Rightarrow> 'f option"
  f_less :: "'f \<Rightarrow> 'f \<Rightarrow> bool"
  f_zero :: 'f
  f_one :: 'f

record 'f rate_limiter =
  rate :: 'f
  interval :: 'f
  allowance :: 'f
  last_check :: 'f

definition acquire ::
  "'f arith \<Rightarrow> 'f \<Rightarrow> 'f rate_limiter \<Rightarrow> (pyerr + 'f option) \<times> 'f rate_limiter" where
  "acquire F current self =
     (let time_passed = f_sub F current (last_check self);
          self1 = self\<lparr>last_check := current\<rparr>
      in case f_div F (rate self) (interval self) of
           None \<Rightarrow> (Inl ZeroDivisionError, self1)
         | Some per_second \<Rightarrow>
             (let a = f_add F (allowance self) (f_mul F time_passed per_second);
                  b = (if f_less F (rate self) a then rate self else a)
              in if f_less F b (f_one F)
                 then (Inr (Some (f_sub F (f_one F) b)), self1\<lparr>allowance := f_zero F\<rparr>)
                 else (Inr None, self1\<lparr>allowance := f_sub F b (f_one F)\<rparr>)))"

text \<open>
  Python's floats are IEEE doubles: a double is \<open>Dbl m e\<close>, the number \<open>m * 2 ^ e\<close>, and
  every operation gives the exact result rounded to 53 significant bits, to the nearest
  double, a tie going to the even one. \<open>round53 m e sticky\<close> rounds \<open>m * 2 ^ e\<close>, increased in
  magnitude by less than one unit of \<open>m\<close> (and by more than nothing exactly when \<open>sticky\<close>
  holds). A Python integer below \<open>2 ^ 53\<close> in magnitude, such as the \<open>rate\<close> and \<open>interval\<close>
  given to the constructor, is the double \<open>Dbl n 0\<close>, and its arithmetic with a float is
  that of this double. The bounds of the exponent of a double, and with them infinities
  and subnormal numbers, are not part of this arithmetic; it is used for concrete runs
  only.
\<close>

datatype dbl = Dbl (mantissa: int) (exponent: int)

function bit_length :: "int \<Rightarrow> nat" where
  "bit_length n = (if n \<le> 0 then 0 else 1 + bit_length (n div 2))"
  by pat_completeness auto
termination
  by (relation "measure nat") auto

declare bit_length.simps [simp del]

definition round53 :: "int \<Rightarrow> int \<Rightarrow> bool \<Rightarrow> dbl" where
  "round53 m e sticky =
     (let b = bit_length \<bar>m\<bar>
      in if b \<le> 53 then Dbl m e
         else (let shift = b - 53;
                   q = \<bar>m\<bar> div 2 ^ shift;
                   r = \<bar>m\<bar> mod 2 ^ shift;
                   half = 2 ^ (shift - 1);
                   q' = (if r > half \<or> (r = half \<and> (sticky \<or> odd q)) then q + 1 else q)
               in Dbl (sgn m * q') (e + int shift)))"

definition dbl_add :: "dbl \<Rightarrow> dbl \<Rightarrow> dbl" where
  "dbl_add x y =
     (let e = min (exponent x) (exponent y)
      in round53 (mantissa x * 2 ^ nat (exponent x - e) + mantissa y * 2 ^ nat (exponent y - e)) e False)"

definition dbl_sub :: "dbl \<Rightarrow> dbl \<Rightarrow> dbl" where
  "dbl_sub x y =
     (let e = min (exponent x) (exponent y)
      in round53 (mantissa x * 2 ^ nat (exponent x - e) - mantissa y * 2 ^ nat (exponent y - e)) e False)"

definition dbl_mul :: "dbl \<Rightarrow> dbl \<Rightarrow> dbl" where
  "dbl_mul x y = round53 (mantissa x * mantissa y) (exponent x + exponent y) False"

definition dbl_div :: "dbl \<Rightarrow> dbl \<Rightarrow> dbl option" where
  "dbl_div x y =
     (if mantissa y = 0 then None
      else (let k = 56 + bit_length \<bar>mantissa y\<bar>;
                n = \<bar>mantissa x\<bar> * 2 ^ k;
                q = n div \<bar>mantissa y\<bar>;
                rem = n mod \<bar>mantissa y\<bar>
            in Some (round53 (sgn (mantissa x) * sgn (mantissa y) * q)
                       (exponent x - exponent y - int k) (rem \<noteq> 0))))"

definition dbl_less :: "dbl \<Rightarrow> dbl \<Rightarrow> bool" where
  "dbl_less x y =
     (let e = min (exponent x) (exponent y)
      in mantissa x * 2 ^ nat (exponent x - e) < mantissa y * 2 ^ nat (exponent y - e))"

definition py_float :: "dbl arith" where
  "py_float = \<lparr> f_add = dbl_add, f_sub = dbl_sub, f_mul = dbl_mul, f_div = dbl_div,
                f_less = dbl_less, f_zero = Dbl 0 0, f_one = Dbl 1 0 \<rparr>"

text \<open>
  The limiter of \<open>PivotalTrackerAPI\<close>, \<open>RateLimiter(rate=6, interval=5)\<close>, a limiter of one
  token per 49 seconds, and a limiter with the interval 0.
\<close>

definition tracker_limiter :: "dbl \<Rightarrow> dbl \<Rightarrow> dbl rate_limiter" where
  "tracker_limiter tokens checked =
     \<lparr> rate = Dbl 6 0, interval = Dbl 5 0, allowance = tokens, last_check = checked \<rparr>"

definition slow_limiter :: "dbl \<Rightarrow> dbl \<Rightarrow> dbl rate_limiter" where
  "slow_limiter tokens checked =
     \<lparr> rate = Dbl 1 0, interval = Dbl 49 0, allowance = tokens, last_check = checked \<rparr>"

definition stuck_limiter :: "dbl \<Rightarrow> dbl \<Rightarrow> dbl rate_limiter" where
  "stuck_limiter tokens checked =
     \<lparr> rate = Dbl 6 0, interval = Dbl 0 0, allowance = tokens, last_check = checked \<rparr>"

section \<open>Pagination (api.py)\<close>

text \<open>
  \<^verbatim>\<open>
  params["limit"] = 100
  params["offset"] = 0
  all_items = []
  while True:
      items = await self._request("GET", endpoint, params=params)
      if isinstance(items, list):
          all_items.extend(items)
          if len(items) < params["limit"]:
              break
          params["offset"] += params["limit"]
      else:
          return items
  return all_items
  \<close>
  \<open>request limit offset\<close> is the answer of \<open>_request\<close> to the query with these parameters: a
  JSON list, another JSON value, or \<open>APIError\<close>. The loop has no bound of its own, so the
  result is an option: \<open>None\<close> is a loop that never returns. Beside the value returned,
  the function gives the offsets of the requests it issued, in order.
\<close>

datatype ('a, 'o) json = JList "'a list" | JObject 'o

datatype api_error = APIError

definition page_limit :: nat where
  "page_limit = 100"

partial_function (option) paginate_loop ::
  "(nat \<Rightarrow> nat \<Rightarrow> api_error + ('a, 'o) json) \<Rightarrow> nat \<Rightarrow> 'a list \<Rightarrow> nat list
     \<Rightarrow> ((api_error + ('a, 'o) json) \<times> nat list) option" where
  "paginate_loop request offset all_items offsets =
     (case request page_limit offset of
        Inl e \<Rightarrow> Some (Inl e, offsets @ [offset])
      | Inr (JObject obj) \<Rightarrow> Some (Inr (JObject obj), offsets @ [offset])
      | Inr (JList items) \<Rightarrow>
          if length items < page_limit
          then Some (Inr (JList (all_items @ items)), offsets @ [offset])
          else paginate_loop request (offset + page_limit) (all_items @ items) (offsets @ [offset]))"

definition paginate ::
  "(nat \<Rightarrow> nat \<Rightarrow> api_error + ('a, 'o) json) \<Rightarrow> ((api_error + ('a, 'o) json) \<times> nat list) option" where
  "paginate request = paginate_loop request 0 [] []"

text \<open>
  A stub endpoint over the items \<open>0, 1, \<dots>, 229\<close>: two full pages and a page of 30. The
  second stub is a sub-resource that answers with one object.
\<close>

definition stub_items :: "nat \<Rightarrow> nat \<Rightarrow> api_error + (nat, string) json" where
  "stub_items limit offset = Inr (JList (map (\<lambda>i. offset + i) [0..<min limit (230 - offset)]))"

definition stub_object :: "nat \<Rightarrow> nat \<Rightarrow> api_error + (nat, string) json" where
  "stub_object limit offset = Inr (JObject ''velocity'')"

section \<open>The Jira client (jira/api.py)\<close>

















section \<open>The Linear client (linear/api.py, linear/utils.py)\<close>







section \<open>Remote calls and sequences of steps\<close>

text \<open>
  The remote calls that the orchestration claims speak of. \<open>CreateAttachment issue a\<close> is
  the upload of (Jira) or the attachment record for (Linear) the attachment \<open>a\<close> on an issue,
  \<open>CreateComment issue c names\<close> the creation of the comment \<open>c\<close> whose body refers to the
  attachment file names \<open>names\<close>, \<open>LinkCall\<close> and \<open>RelationCall\<close> a blocker link of Jira and of
  Linear, and \<open>StepCall name\<close> a call
  issued by a step that is followed no further here (creating the project or team,
  users, epics, sprints).
\<close>

datatype remote_call =
  CreateAttachment pystr pt_attachment
| CreateComment pystr pt_comment "pystr list"
| LinkCall jira_link
| RelationCall linear_relation
| StepCall string

text \<open>An exception on its way out of a step: a Python error, or a failure of the remote side.\<close>

datatype exc = Py pyerr | RemoteFailure

text \<open>
  Statements in sequence: the calls of both are issued in order unless the first raises.
\<close>

definition and_then ::
  "'c list \<times> ('e + 'a) \<Rightarrow> ('a \<Rightarrow> 'c list \<times> ('e + 'b)) \<Rightarrow> 'c list \<times> ('e + 'b)" where
  "and_then m f =
     (case m of
        (cs, Inl e) \<Rightarrow> (cs, Inl e)
      | (cs, Inr a) \<Rightarrow> (case f a of (ds, r) \<Rightarrow> (cs @ ds, r)))"

definition raising :: "'c list \<times> 'e option \<Rightarrow> 'c list \<times> ('e + unit)" where
  "raising m = (case m of (cs, None) \<Rightarrow> (cs, Inr ()) | (cs, Some e) \<Rightarrow> (cs, Inl e))"

text \<open>What \<open>migrate_project\<close> comes to, together with the calls issued and the marker file.\<close>

datatype run = Skipped | Migrated | Raised exc | Escaped pyerr

record pt_project =
  project_id :: int
  project_name :: pystr
  project_stories :: "pt_story list"

section \<open>The record of migrated projects (jira/utils.py, linear/utils.py)\<close>

text \<open>
  The marker file is its content as Python's text mode delivers it (every line end is the
  character 10), or \<open>None\<close> when it does not exist. \<open>str_of_int\<close> is the
  decimal text Python writes for an \<open>int\<close> in an f-string. A Python value that is an \<open>int\<close>
  is never equal to one that is a \<open>str\<close>, so the members of a set are tagged with their type.
\<close>

datatype pyval = PyInt int | PyStr pystr

fun digits_of_nat :: "nat \<Rightarrow> pystr" where
  "digits_of_nat n = (if n < 10 then [48 + n] else digits_of_nat (n div 10) @ [48 + n mod 10])"

declare digits_of_nat.simps [simp del]

definition str_of_int :: "int \<Rightarrow> pystr" where
  "str_of_int i = (if i < 0 then 45 # digits_of_nat (nat (- i)) else digits_of_nat (nat i))"

text \<open>The stripped non-empty lines of a file, as \<open>line.strip() for line in f if line.strip()\<close>.\<close>

definition stripped_lines :: "unicode \<Rightarrow> pystr \<Rightarrow> pystr list" where
  "stripped_lines U content = filter (\<lambda>l. l \<noteq> []) (map (strip U) (split_on 10 content))"

text \<open>
  \<^verbatim>\<open>
  def mark_project_as_imported(project_id):
      with open(IMPORTED_PROJECTS_FILE, "a") as f:
          f.write(f"{project_id}\n")

  def get_imported_projects():
      if not os.path.exists(IMPORTED_PROJECTS_FILE):
          return set()
      with open(IMPORTED_PROJECTS_FILE, "r") as f:
          return set(int(line.strip()) for line in f if line.strip())
  \<close>
  \<open>mark_team_as_processed\<close> of the Linear side is the same function on another file.
\<close>

definition append_id_line :: "int \<Rightarrow> pystr option \<Rightarrow> pystr option" where
  "append_id_line i file = Some ((case file of None \<Rightarrow> [] | Some content \<Rightarrow> content) @ str_of_int i @ [10])"

definition mark_project_as_imported :: "int \<Rightarrow> pystr option \<Rightarrow> pystr option" where
  "mark_project_as_imported pid file = append_id_line pid file"

definition mark_team_as_processed :: "int \<Rightarrow> pystr option \<Rightarrow> pystr option" where
  "mark_team_as_processed team_id file = append_id_line team_id file"

fun ints_of_lines :: "unicode \<Rightarrow> pystr list \<Rightarrow> pyerr + pyval list" where
  "ints_of_lines U [] = Inr []"
| "ints_of_lines U (l # ls) =
     (case py_int U l of
        None \<Rightarrow> Inl ValueError
      | Some n \<Rightarrow> (case ints_of_lines U ls of Inl e \<Rightarrow> Inl e | Inr ns \<Rightarrow> Inr (PyInt n # ns)))"

definition get_imported_projects :: "unicode \<Rightarrow> pystr option \<Rightarrow> pyerr + pyval list" where
  "get_imported_projects U file =
     (case file of None \<Rightarrow> Inr [] | Some content \<Rightarrow> ints_of_lines U (stripped_lines U content))"

text \<open>
  \<^verbatim>\<open>
  def get_processed_teams():
      if not os.path.exists(PROCESSED_TEAMS_FILE):
          return set()
      with open(PROCESSED_TEAMS_FILE, "r") as f:
          return set(line.strip() for line in f if line.strip())
  \<close>
\<close>

definition get_processed_teams :: "unicode \<Rightarrow> pystr option \<Rightarrow> pyval list" where
  "get_processed_teams U file =
     (case file of None \<Rightarrow> [] | Some content \<Rightarrow> map PyStr (stripped_lines U content))"

section \<open>Comments and attachments in the Jira migrator (jira/migrators/comment\_migrator.py)\<close>

text \<open>
  What lies outside the program: whether an attachment file can be opened, the file name
  in the answer to an upload (\<open>None\<close> when the upload fails or the answer is incomplete), the
  id in the answer to \<open>create_comment\<close> (\<open>None\<close> when it fails), the outcome of
  \<open>migrate_issue\<close> for a story, which is an issue key or, every exception being wrapped,
  \<open>IssueMigrationError\<close> (\<open>None\<close>), and the outcome of the steps not followed further.
\<close>

datatype jira_step = JProject | JUsers | JEpics | JLink | JSprints

record jira_world =
  jw_file_opens :: "pystr \<Rightarrow> bool"
  jw_upload :: "pystr \<Rightarrow> pt_attachment \<Rightarrow> pystr option"
  jw_comment :: "pystr \<Rightarrow> pt_comment \<Rightarrow> pystr list \<Rightarrow> pystr option"
  jw_migrate_issue :: "pt_story \<Rightarrow> remote_call list \<times> pystr option"
  jw_step :: "jira_step \<Rightarrow> remote_call list \<times> exc option"

text \<open>
  The attachments of one comment, in order: \<open>migrate_attachment\<close> raises
  \<open>CommentMigrationError\<close> when the file cannot be opened (nothing is sent) or the upload
  fails (the call was sent). The result holds the calls and, unless an attachment
  failed, the file names to refer to.
\<close>

fun migrate_attachments_jira ::
  "jira_world \<Rightarrow> pystr \<Rightarrow> pt_attachment list \<Rightarrow> remote_call list \<times> pystr list option" where
  "migrate_attachments_jira W jira_issue_key [] = ([], Some [])"
| "migrate_attachments_jira W jira_issue_key (a # as) =
     (if \<not> jw_file_opens W (attachment_file_path a) then ([], None)
      else (case jw_upload W jira_issue_key a of
              None \<Rightarrow> ([CreateAttachment jira_issue_key a], None)
            | Some name \<Rightarrow>
                (case migrate_attachments_jira W jira_issue_key as of
                   (cs, r) \<Rightarrow> (CreateAttachment jira_issue_key a # cs, map_option ((#) name) r))))"

text \<open>
  One pass of the loop of \<open>migrate_comments\<close>: a comment without attachments is created at
  once; otherwise its attachments are migrated and then the comment is created. A
  \<open>CommentMigrationError\<close> ends the pass. The result holds the calls and the id of the
  comment if it was created.
\<close>

definition migrate_comment_jira ::
  "jira_world \<Rightarrow> pystr \<Rightarrow> pt_comment \<Rightarrow> remote_call list \<times> pystr option" where
  "migrate_comment_jira W jira_issue_key pt_comment =
     (if length (comment_attachments pt_comment) = 0
      then ([CreateComment jira_issue_key pt_comment []], jw_comment W jira_issue_key pt_comment [])
      else (case migrate_attachments_jira W jira_issue_key (comment_attachments pt_comment) of
              (cs, None) \<Rightarrow> (cs, None)
            | (cs, Some names) \<Rightarrow>
                (cs @ [CreateComment jira_issue_key pt_comment names],
                 jw_comment W jira_issue_key pt_comment names)))"

fun migrate_comments_jira ::
  "jira_world \<Rightarrow> pystr \<Rightarrow> pt_comment list \<Rightarrow> remote_call list \<times> pystr list" where
  "migrate_comments_jira W jira_issue_key [] = ([], [])"
| "migrate_comments_jira W jira_issue_key (c # cs) =
     (case migrate_comment_jira W jira_issue_key c of
        (calls, r) \<Rightarrow>
          (case migrate_comments_jira W jira_issue_key cs of
             (later, migrated_comments) \<Rightarrow>
               (calls @ later, (case r of None \<Rightarrow> [] | Some i \<Rightarrow> [i]) @ migrated_comments)))"

section \<open>Comments and attachments in the Linear migrator (linear/migrators/comment\_migrator.py)\<close>

text \<open>
  \<open>migrate_attachments\<close> calls \<open>Config.get_attachment_path(pt_attachment.file_path)\<close>. The
  class method of linear/config.py is declared with three arguments, \<open>project_id\<close>,
  \<open>story_id\<close> and \<open>filename\<close>, so the call with one argument raises \<open>TypeError\<close>, which the
  loop catches and logs for each attachment. The migrator is modelled for any resolution
  of a path, \<open>get_attachment_path_call\<close> being the one of the code.
\<close>

definition get_attachment_path_call :: "pystr \<Rightarrow> pyerr + pystr" where
  "get_attachment_path_call file_path = Inl TypeError"

datatype linear_step = LTeam | LUsers | LEpics | LCycles

record linear_world =
  lw_path_exists :: "pystr \<Rightarrow> bool"
  lw_comment :: "pystr \<Rightarrow> pt_comment \<Rightarrow> pystr option"
  lw_relation_ok :: "linear_relation \<Rightarrow> bool"
  lw_step :: "linear_step \<Rightarrow> remote_call list \<times> exc option"

definition migrate_attachment_linear ::
  "(pystr \<Rightarrow> pyerr + pystr) \<Rightarrow> linear_world \<Rightarrow> pystr \<Rightarrow> pt_attachment \<Rightarrow> remote_call list" where
  "migrate_attachment_linear resolve W linear_issue_id pt_attachment =
     (case resolve (attachment_file_path pt_attachment) of
        Inl e \<Rightarrow> []
      | Inr file_path \<Rightarrow>
          if \<not> lw_path_exists W file_path then []
          else [CreateAttachment linear_issue_id pt_attachment])"

definition migrate_attachments_linear ::
  "(pystr \<Rightarrow> pyerr + pystr) \<Rightarrow> linear_world \<Rightarrow> pystr \<Rightarrow> pt_attachment list \<Rightarrow> remote_call list" where
  "migrate_attachments_linear resolve W linear_issue_id pt_attachments =
     concat (map (migrate_attachment_linear resolve W linear_issue_id) pt_attachments)"

text \<open>
  \<open>migrate_comment\<close>: the comment is created first; when that succeeded and the comment has
  attachments, they are handled afterwards.
\<close>

definition migrate_comment_linear ::
  "(pystr \<Rightarrow> pyerr + pystr) \<Rightarrow> linear_world \<Rightarrow> pystr \<Rightarrow> pt_comment
     \<Rightarrow> remote_call list \<times> pystr option" where
  "migrate_comment_linear resolve W linear_issue_id pt_comment =
     (case lw_comment W linear_issue_id pt_comment of
        None \<Rightarrow> ([CreateComment linear_issue_id pt_comment []], None)
      | Some i \<Rightarrow>
          (CreateComment linear_issue_id pt_comment []
             # (if comment_attachments pt_comment \<noteq> []
                then migrate_attachments_linear resolve W linear_issue_id (comment_attachments pt_comment)
                else []),
           Some i))"

fun migrate_comments_linear ::
  "(pystr \<Rightarrow> pyerr + pystr) \<Rightarrow> linear_world \<Rightarrow> pystr \<Rightarrow> pt_comment list
     \<Rightarrow> remote_call list \<times> pystr list" where
  "migrate_comments_linear resolve W linear_issue_id [] = ([], [])"
| "migrate_comments_linear resolve W linear_issue_id (c # cs) =
     (case migrate_comment_linear resolve W linear_issue_id c of
        (calls, r) \<Rightarrow>
          (case migrate_comments_linear resolve W linear_issue_id cs of
             (later, migrated_comments) \<Rightarrow>
               (calls @ later, (case r of None \<Rightarrow> [] | Some i \<Rightarrow> [i]) @ migrated_comments)))"

text \<open>
  The order the specification asks for, on a list of calls: every attachment of the
  comment has its call before the first call that creates the comment.
\<close>

definition creates_comment :: "pystr \<Rightarrow> pt_comment \<Rightarrow> remote_call \<Rightarrow> bool" where
  "creates_comment issue c call =
     (case call of CreateComment i c' names \<Rightarrow> i = issue \<and> c' = c | _ \<Rightarrow> False)"

definition attachments_before_comment :: "remote_call list \<Rightarrow> pystr \<Rightarrow> pt_comment \<Rightarrow> bool" where
  "attachments_before_comment calls issue c =
     list_all (\<lambda>a. CreateAttachment issue a \<in> set (takeWhile (\<lambda>call. \<not> creates_comment issue c call) calls))
       (comment_attachments c)"

definition comment_created :: "remote_call list \<Rightarrow> pystr \<Rightarrow> pt_comment \<Rightarrow> bool" where
  "comment_created calls issue c = list_ex (creates_comment issue c) calls"

text \<open>A comment with one attachment, and a world where every file exists and every call succeeds.\<close>

definition screenshot :: pt_attachment where
  "screenshot = \<lparr> attachment_id = 5, attachment_filename = py ''shot.png'',
                  attachment_file_path = py ''1/43/5_shot.png'' \<rparr>"

definition comment9 :: pt_comment where
  "comment9 = \<lparr> comment_id = 9, comment_text = py ''see the screenshot'',
                comment_attachments = [screenshot] \<rparr>"

definition comment10 :: pt_comment where
  "comment10 = \<lparr> comment_id = 10, comment_text = py ''thanks'', comment_attachments = [] \<rparr>"

definition kind_linear_world :: linear_world where
  "kind_linear_world =
     \<lparr> lw_path_exists = (\<lambda>p. True), lw_comment = (\<lambda>i c. Some (py ''c'')),
       lw_relation_ok = (\<lambda>r. True),
       lw_step = (\<lambda>s. ([StepCall (case s of LTeam \<Rightarrow> ''teamCreate'' | LUsers \<Rightarrow> ''users''
                                      | LEpics \<Rightarrow> ''projectCreate'' | LCycles \<Rightarrow> ''cycleCreate'')], None)) \<rparr>"

definition kind_jira_world :: jira_world where
  "kind_jira_world =
     \<lparr> jw_file_opens = (\<lambda>p. True), jw_upload = (\<lambda>k a. Some (attachment_filename a)),
       jw_comment = (\<lambda>k c names. Some (py ''c'')),
       jw_migrate_issue = (\<lambda>s. ([StepCall ''issue''], Some (py ''K-'' @ str_of_int (story_id s)))),
       jw_step = (\<lambda>s. ([StepCall (case s of JProject \<Rightarrow> ''project'' | JUsers \<Rightarrow> ''user''
                                      | JEpics \<Rightarrow> ''epic'' | JLink \<Rightarrow> ''parent''
                                      | JSprints \<Rightarrow> ''sprint'')], None)) \<rparr>"

definition refusing_jira_world :: jira_world where
  "refusing_jira_world = kind_jira_world \<lparr> jw_upload := (\<lambda>k a. None) \<rparr>"

definition flaky_jira_world :: jira_world where
  "flaky_jira_world = kind_jira_world
     \<lparr> jw_migrate_issue := (\<lambda>s. if story_id s = 42 then ([StepCall ''issue''], None)
                                else ([StepCall ''issue''], Some (py ''K-'' @ str_of_int (story_id s)))) \<rparr>"

section \<open>The Jira orchestrator (jira/main.py)\<close>

text \<open>
  \<open>IssueMigrator.migrate_issues\<close>: the stories in order; a story whose \<open>migrate_issue\<close> raises
  \<open>IssueMigrationError\<close> is logged and left out of the map.
\<close>

fun migrate_issues_jira ::
  "jira_world \<Rightarrow> pt_story list \<Rightarrow> (int \<rightharpoonup> pystr) \<Rightarrow> remote_call list \<times> (int \<rightharpoonup> pystr)" where
  "migrate_issues_jira W [] migrated_issues = ([], migrated_issues)"
| "migrate_issues_jira W (s # ss) migrated_issues =
     (case jw_migrate_issue W s of
        (calls, None) \<Rightarrow>
          (case migrate_issues_jira W ss migrated_issues of (later, m) \<Rightarrow> (calls @ later, m))
      | (calls, Some key) \<Rightarrow>
          (case migrate_issues_jira W ss (migrated_issues(story_id s \<mapsto> key)) of
             (later, m) \<Rightarrow> (calls @ later, m)))"

text \<open>
  The body of the loop over the stories at the end of \<open>migrate_project\<close>:
  \<^verbatim>\<open>
  for pt_story in pt_project.stories:
      jira_issue_key = issue_map[pt_story.id]
      comments = self._prepare_comments(pt_story.comments)
      await self.comment_migrator.migrate_comments(jira_issue_key, comments)
  \<close>
\<close>

definition migrate_story_comments_jira ::
  "jira_world \<Rightarrow> (int \<rightharpoonup> pystr) \<Rightarrow> pt_story \<Rightarrow> remote_call list \<times> exc option" where
  "migrate_story_comments_jira W issue_map pt_story =
     (case issue_map (story_id pt_story) of
        None \<Rightarrow> ([], Some (Py KeyError))
      | Some jira_issue_key \<Rightarrow>
          (fst (migrate_comments_jira W jira_issue_key (story_comments pt_story)), None))"

definition blockers_step ::
  "unicode \<Rightarrow> (int \<rightharpoonup> pystr) \<Rightarrow> pt_story list \<Rightarrow> remote_call list \<times> exc option" where
  "blockers_step U issue_map pt_stories =
     (case process_blockers U issue_map pt_stories of (links, r) \<Rightarrow> (map LinkCall links, map_option Py r))"

text \<open>
  The \<open>try\<close> block of \<open>migrate_project\<close>: project, users, epics, issues, links to epics,
  blockers, sprints, comments. Any exception that leaves it is raised again as
  \<open>JiraMigrationError\<close>.
\<close>

definition jira_try_block ::
  "unicode \<Rightarrow> jira_world \<Rightarrow> pt_project \<Rightarrow> remote_call list \<times> (exc + unit)" where
  "jira_try_block U W pt_project =
     and_then (raising (jw_step W JProject)) (\<lambda>_.
     and_then (raising (jw_step W JUsers)) (\<lambda>_.
     and_then (raising (jw_step W JEpics)) (\<lambda>_.
     and_then (case migrate_issues_jira W (project_stories pt_project) Map.empty of
                 (calls, m) \<Rightarrow> (calls, Inr m)) (\<lambda>issue_map.
     and_then (raising (jw_step W JLink)) (\<lambda>_.
     and_then (raising (blockers_step U issue_map (project_stories pt_project))) (\<lambda>_.
     and_then (raising (jw_step W JSprints)) (\<lambda>_.
     raising (for_each (migrate_story_comments_jira W issue_map) (project_stories pt_project)))))))))"

text \<open>
  \<^verbatim>\<open>
  imported_projects = get_imported_projects()
  if project_id in imported_projects and not force_update:
      return None
  try:
      ...
      mark_project_as_imported(project_id)
      return jira_project
  except Exception as e:
      raise JiraMigrationError(...)
  \<close>
\<close>

definition jira_migrate_project ::
  "unicode \<Rightarrow> jira_world \<Rightarrow> pystr option \<Rightarrow> pt_project \<Rightarrow> bool
     \<Rightarrow> run \<times> remote_call list \<times> pystr option" where
  "jira_migrate_project U W file pt_project force_update =
     (case get_imported_projects U file of
        Inl e \<Rightarrow> (Escaped e, [], file)
      | Inr imported_projects \<Rightarrow>
          if PyInt (project_id pt_project) \<in> set imported_projects \<and> \<not> force_update
          then (Skipped, [], file)
          else (case jira_try_block U W pt_project of
                  (calls, Inl e) \<Rightarrow> (Raised e, calls, file)
                | (calls, Inr u) \<Rightarrow>
                    (Migrated, calls, mark_project_as_imported (project_id pt_project) file)))"

section \<open>The Linear orchestrator (linear/main.py)\<close>

text \<open>
  \<open>IssueMigrator.migrate_issues\<close> of the Linear side begins with
  \<^verbatim>\<open>self.label_epic_map = await get_label_epic_map(pt_project_id)\<close>. The only
  \<open>get_label_epic_map\<close> of the module is written inside the class body of \<open>IssueMigrator\<close>,
  so the name is neither local nor global where it is used, and the statement raises
  \<open>NameError\<close> before any story is looked at.
\<close>

definition migrate_issues_linear ::
  "linear_world \<Rightarrow> pt_story list \<Rightarrow> remote_call list \<times> (exc + (int \<rightharpoonup> pystr))" where
  "migrate_issues_linear W pt_stories = ([], Inl (Py NameError))"

definition migrate_story_comments_linear ::
  "linear_world \<Rightarrow> (int \<rightharpoonup> pystr) \<Rightarrow> pt_story \<Rightarrow> remote_call list" where
  "migrate_story_comments_linear W issue_map pt_story =
     (case issue_map (story_id pt_story) of
        None \<Rightarrow> []
      | Some linear_issue_id \<Rightarrow>
          fst (migrate_comments_linear get_attachment_path_call W linear_issue_id (story_comments pt_story)))"

text \<open>
  The \<open>try\<close> block of \<open>migrate_project\<close>: team, users, epics, cycles, issues, comments,
  relations.
\<close>

definition linear_try_block ::
  "linear_world \<Rightarrow> pt_project \<Rightarrow> remote_call list \<times> (exc + unit)" where
  "linear_try_block W pt_project =
     and_then (raising (lw_step W LTeam)) (\<lambda>_.
     and_then (raising (lw_step W LUsers)) (\<lambda>_.
     and_then (raising (lw_step W LEpics)) (\<lambda>_.
     and_then (raising (lw_step W LCycles)) (\<lambda>_.
     and_then (migrate_issues_linear W (project_stories pt_project)) (\<lambda>issue_map.
     and_then (concat (map (migrate_story_comments_linear W issue_map) (project_stories pt_project)),
               Inr ()) (\<lambda>_.
     (map RelationCall (migrate_relations (lw_relation_ok W) issue_map (project_stories pt_project)),
      Inr ())))))))"

text \<open>
  \<^verbatim>\<open>
  project_id = pt_project.id
  processed_teams = get_processed_teams()
  if project_id in processed_teams and not force_update:
      return None
  try:
      ...
      mark_team_as_processed(project_id)
      return linear_team
  except Exception as e:
      raise LinearMigrationError(...)
  \<close>
  \<open>pt_project.id\<close> is the integer primary key of the project.
\<close>

definition linear_migrate_project ::
  "unicode \<Rightarrow> linear_world \<Rightarrow> pystr option \<Rightarrow> pt_project \<Rightarrow> bool
     \<Rightarrow> run \<times> remote_call list \<times> pystr option" where
  "linear_migrate_project U W file pt_project force_update =
     (let processed_teams = get_processed_teams U file
      in if PyInt (project_id pt_project) \<in> set processed_teams \<and> \<not> force_update
         then (Skipped, [], file)
         else (case linear_try_block W pt_project of
                 (calls, Inl e) \<Rightarrow> (Raised e, calls, file)
               | (calls, Inr u) \<Rightarrow>
                   (Migrated, calls, mark_team_as_processed (project_id pt_project) file)))"

text \<open>A project with the stories 42 and 43.\<close>

definition project7 :: pt_project where
  "project7 = \<lparr> project_id = 7, project_name = py ''Apollo'', project_stories = [story42, story43] \<rparr>"

section \<open>Auxiliary lemmas\<close>

subsection \<open>Strings\<close>

lemma lstrip_head: "lstrip U s = [] \<or> \<not> u_isspace U (hd (lstrip U s))"
  unfolding lstrip_def by (metis hd_dropWhile)

lemma set_lstrip: "set (lstrip U s) \<subseteq> set s"
  unfolding lstrip_def by (simp add: set_dropWhileD subsetI)

lemma length_lstrip: "length (lstrip U s) \<le> length s"
  unfolding lstrip_def by (rule length_dropWhile_le)

lemma set_strip: "set (strip U s) \<subseteq> set s"
  unfolding strip_def using set_lstrip [of U "rev (lstrip U s)"] set_lstrip [of U s] by auto

lemma length_strip: "length (strip U s) \<le> length s"
  unfolding strip_def
  using length_lstrip [of U "rev (lstrip U s)"] length_lstrip [of U s] by simp

lemma lstrip_keeps_last:
  "lstrip U s \<noteq> [] \<Longrightarrow> last (lstrip U s) = last s"
  unfolding lstrip_def
  by (metis last_appendR takeWhile_dropWhile_id)

lemma strip_unpadded: "unpadded U (strip U s)"
proof (cases "strip U s = []")
  case True
  then show ?thesis by (simp add: unpadded_def)
next
  case False
  let ?a = "lstrip U s"
  let ?b = "lstrip U (rev ?a)"
  from False have b: "?b \<noteq> []" by (simp add: strip_def)
  have a: "?a \<noteq> []"
  proof
    assume e: "?a = []"
    have "lstrip U (rev []) = []" by (simp add: lstrip_def)
    with e have "?b = []" by simp
    with b show False by simp
  qed
  have "last (strip U s) = hd ?b" by (simp add: strip_def last_rev)
  moreover have "\<not> u_isspace U (hd ?b)" using lstrip_head [of U "rev ?a"] b by simp
  ultimately have l: "\<not> u_isspace U (last (strip U s))" by simp
  have "hd (strip U s) = last ?b" using b by (simp add: strip_def hd_rev)
  also have "\<dots> = last (rev ?a)" using b by (rule lstrip_keeps_last)
  also have "\<dots> = hd ?a" using a by (simp add: last_rev)
  finally have "hd (strip U s) = hd ?a" .
  moreover have "\<not> u_isspace U (hd ?a)" using lstrip_head [of U s] a by simp
  ultimately show ?thesis using l by (simp add: unpadded_def)
qed

lemma sanitize_name_50: "sanitize_name U name 50 = strip U (take 50 (filter (name_char_ok U) name))"
  by (simp add: sanitize_name_def slice_to_def)

lemma sanitize_name_is_sanitized_form: "is_sanitized_form U name (sanitize_name U name 50)"
proof -
  let ?f = "take 50 (filter (name_char_ok U) name)"
  have "set (strip U ?f) \<subseteq> set ?f" by (rule set_strip)
  also have "\<dots> \<subseteq> set (filter (name_char_ok U) name)" by (rule set_take_subset)
  finally have ok: "list_all (name_char_ok U) (strip U ?f)" by (auto simp: list_all_iff)
  have "length (strip U ?f) \<le> length ?f" by (rule length_strip)
  then have len: "length (strip U ?f) \<le> 50" by simp
  show ?thesis
    unfolding is_sanitized_form_def sanitize_name_50
    using ok len strip_unpadded [of U ?f] by simp
qed

subsection \<open>Splitting and the blocker reference\<close>

lemma split_on_unfold:
  "split_on sep s = takeWhile (\<lambda>c. c \<noteq> sep) s #
      (if sep \<in> set s then split_on sep (tl (dropWhile (\<lambda>c. c \<noteq> sep) s)) else [])"
  by (induction s) (auto split: list.splits)

lemma split_on_first:
  "\<exists>rest. split_on sep s = takeWhile (\<lambda>c. c \<noteq> sep) s # rest"
  using split_on_unfold [of sep s] by blast

lemma split_on_second:
  assumes "sep \<in> set s"
  shows "\<exists>rest. split_on sep s = takeWhile (\<lambda>c. c \<noteq> sep) s #
            takeWhile (\<lambda>c. c \<noteq> sep) (tl (dropWhile (\<lambda>c. c \<noteq> sep) s)) # rest"
proof -
  obtain rest where "split_on sep (tl (dropWhile (\<lambda>c. c \<noteq> sep) s))
      = takeWhile (\<lambda>c. c \<noteq> sep) (tl (dropWhile (\<lambda>c. c \<noteq> sep) s)) # rest"
    using split_on_first by blast
  with assms split_on_unfold [of sep s] show ?thesis by simp
qed

lemma takeWhile_twice: "takeWhile P (takeWhile Q xs) = takeWhile (\<lambda>x. P x \<and> Q x) xs"
  by (induction xs) auto

lemma blocker_reference_token:
  "blocker_reference U s =
     (if 35 \<in> set s \<and> str_isdigit U (token_after_hash s)
      then (case py_int U (token_after_hash s) of None \<Rightarrow> Inl ValueError | Some n \<Rightarrow> Inr (Some n))
      else Inr None)"
proof (cases "35 \<in> set s")
  case False
  then show ?thesis by (simp add: blocker_reference_def)
next
  case True
  let ?seg = "takeWhile (\<lambda>c. c \<noteq> 35) (tl (dropWhile (\<lambda>c. c \<noteq> 35) s))"
  obtain r1 where s1: "split_on 35 s = takeWhile (\<lambda>c. c \<noteq> 35) s # ?seg # r1"
    using split_on_second [OF True] by blast
  obtain r2 where s2: "split_on 32 ?seg = takeWhile (\<lambda>c. c \<noteq> 32) ?seg # r2"
    using split_on_first by blast
  have t: "takeWhile (\<lambda>c. c \<noteq> 32) ?seg = token_after_hash s"
    by (simp add: token_after_hash_def takeWhile_twice)
  show ?thesis
    using True by (simp add: blocker_reference_def s1 s2 t)
qed

lemma first_hash_digits_skip:
  "35 \<notin> set pre \<Longrightarrow> first_hash_digits U (pre @ 35 # cs) =
     (if takeWhile (u_isdigit U) cs \<noteq> [] then Some (takeWhile (u_isdigit U) cs)
      else first_hash_digits U cs)"
  by (induction pre) auto

lemma takeWhile_digits_token:
  assumes "\<not> u_isdigit U 32" "\<not> u_isdigit U 35"
    and "list_all (u_isdigit U) (takeWhile (\<lambda>c. c \<noteq> 32 \<and> c \<noteq> 35) cs)"
  shows "takeWhile (u_isdigit U) cs = takeWhile (\<lambda>c. c \<noteq> 32 \<and> c \<noteq> 35) cs"
  using assms(3)
proof (induction cs)
  case Nil
  then show ?case by simp
next
  case (Cons c cs)
  then show ?case using assms(1,2) by (auto split: if_splits)
qed

lemma first_hash_digits_token:
  assumes "\<not> u_isdigit U 32" "\<not> u_isdigit U 35"
    and "35 \<in> set s" "str_isdigit U (token_after_hash s)"
  shows "first_hash_digits U s = Some (token_after_hash s)"
proof -
  let ?pre = "takeWhile (\<lambda>c. c \<noteq> 35) s"
  let ?cs = "tl (dropWhile (\<lambda>c. c \<noteq> 35) s)"
  have d: "dropWhile (\<lambda>c. c \<noteq> 35) s = 35 # ?cs"
    using assms(3) by (metis (mono_tags, lifting) dropWhile_eq_Nil_conv hd_dropWhile list.collapse)
  have s: "s = ?pre @ 35 # ?cs"
    using d by (metis takeWhile_dropWhile_id)
  have n: "35 \<notin> set ?pre" by (metis (mono_tags, lifting) set_takeWhileD)
  have tk: "takeWhile (u_isdigit U) ?cs = token_after_hash s"
    using takeWhile_digits_token [OF assms(1,2), of ?cs] assms(4)
    by (simp add: token_after_hash_def str_isdigit_def)
  have "first_hash_digits U (?pre @ 35 # ?cs) = Some (token_after_hash s)"
    using first_hash_digits_skip [OF n, of U ?cs] tk assms(4) by (simp add: str_isdigit_def)
  with s show ?thesis by simp
qed

lemma blocker_reference_agrees_with_spec:
  assumes "\<not> u_isdigit U 32" "\<not> u_isdigit U 35" and "blocker_reference U s = Inr (Some n)"
  shows "spec_blocker_reference U s = Inr (Some n)"
proof -
  from assms(3) have h: "35 \<in> set s" and d: "str_isdigit U (token_after_hash s)"
    and i: "py_int U (token_after_hash s) = Some n"
    unfolding blocker_reference_token by (auto split: if_splits option.splits)
  from first_hash_digits_token [OF assms(1,2) h d] i show ?thesis
    by (simp add: spec_blocker_reference_def)
qed

subsection \<open>Loops with effects\<close>

lemma for_each_calls:
  "set (fst (for_each body xs)) \<subseteq> (\<Union>x \<in> set xs. set (fst (body x)))"
proof (induction xs)
  case Nil
  then show ?case by simp
next
  case (Cons x xs)
  then show ?case by (auto split: prod.splits option.splits)
qed

subsection \<open>Blocker links\<close>

text \<open>
  The Jira migrator links the referenced issue to the blocked issue when both are in
  the issue map, and does nothing when one of them is missing.
\<close>

lemma process_blocker_link:
  assumes "\<not> blocker_resolved b" "blocker_reference U (blocker_description b) = Inr (Some r)"
    and "m r = Some k1" "m (story_id s) = Some k2"
  shows "process_blocker U m s b = ([CreateBlockerLink k1 k2], None)"
  using assms by (simp add: process_blocker_def)

lemma process_blocker_missing:
  assumes "blocker_reference U (blocker_description b) = Inr (Some r)"
    and "m r = None \<or> m (story_id s) = None"
  shows "process_blocker U m s b = ([], None)"
  using assms by (auto simp: process_blocker_def split: option.splits)

text \<open>
  The Linear migrator looks up the issue of \<open>blocker.story\<close>, the blocked story itself:
  every relation it requests for a story of a database snapshot goes from the story's
  own issue to the same issue.
\<close>

lemma migrate_story_relations_self:
  assumes "\<forall>b \<in> set (story_blockers s). blocker_story_id b = story_id s"
    and "c \<in> set (fst (migrate_story_relations ok m s))"
  shows "rel_issue_id c = rel_related_issue_id c \<and> m (story_id s) = Some (rel_issue_id c)"
proof (cases "m (story_id s)")
  case None
  with assms(2) show ?thesis by (simp add: migrate_story_relations_def)
next
  case (Some l)
  with assms(2) have "c \<in> set (fst (for_each (migrate_blocker ok m l) (story_blockers s)))"
    by (simp add: migrate_story_relations_def)
  then obtain b where b: "b \<in> set (story_blockers s)" and c: "c \<in> set (fst (migrate_blocker ok m l b))"
    using for_each_calls [of "migrate_blocker ok m l" "story_blockers s"] by blast
  from b assms(1) have "blocker_story_id b = story_id s" by simp
  with c Some show ?thesis
    by (auto simp: migrate_blocker_def Let_def split: if_splits)
qed

subsection \<open>Pagination\<close>

lemma paginate_loop_pages:
  assumes pages: "\<forall>j<k. request page_limit (page_limit * j) = Inr (JList (pages j))
                        \<and> page_limit \<le> length (pages j)"
    and "i \<le> k"
  shows "paginate_loop request (page_limit * i) acc offs =
         paginate_loop request (page_limit * k) (acc @ concat (map pages [i..<k]))
           (offs @ map (\<lambda>j. page_limit * j) [i..<k])"
  using assms(2)
proof (induction "k - i" arbitrary: i acc offs)
  case 0
  then show ?case by simp
next
  case (Suc d)
  then have lt: "i < k" and d: "d = k - Suc i" and le: "Suc i \<le> k" by auto
  from pages lt have r: "request page_limit (page_limit * i) = Inr (JList (pages i))"
    and l: "\<not> length (pages i) < page_limit" by auto
  have e: "page_limit * i + page_limit = page_limit * Suc i" by simp
  have "paginate_loop request (page_limit * i) acc offs
      = paginate_loop request (page_limit * Suc i) (acc @ pages i) (offs @ [page_limit * i])"
    by (subst paginate_loop.simps) (simp only: r l e sum.case json.case if_False)
  also have "\<dots> = paginate_loop request (page_limit * k)
       ((acc @ pages i) @ concat (map pages [Suc i..<k]))
       ((offs @ [page_limit * i]) @ map (\<lambda>j. page_limit * j) [Suc i..<k])"
    using Suc.hyps(1) [OF d le] .
  finally show ?case using lt by (simp add: upt_conv_Cons)
qed

lemma paginate_reaches_page:
  assumes "\<forall>j<k. request page_limit (page_limit * j) = Inr (JList (pages j))
                 \<and> page_limit \<le> length (pages j)"
  shows "paginate request = paginate_loop request (page_limit * k) (concat (map pages [0..<k]))
           (map (\<lambda>j. page_limit * j) [0..<k])"
  using paginate_loop_pages [of k request pages 0 "[]" "[]"] assms by (simp add: paginate_def)

lemma paginate_last:
  assumes "\<forall>j<k. request page_limit (page_limit * j) = Inr (JList (pages j))
                 \<and> page_limit \<le> length (pages j)"
    and "request page_limit (page_limit * k) = Inr (JList last_page)"
    and "length last_page < page_limit"
  shows "paginate request = Some (Inr (JList (concat (map pages [0..<k]) @ last_page)),
           map (\<lambda>j. page_limit * j) [0..<Suc k])"
proof -
  have "paginate_loop request (page_limit * k) (concat (map pages [0..<k]))
          (map (\<lambda>j. page_limit * j) [0..<k])
        = Some (Inr (JList (concat (map pages [0..<k]) @ last_page)),
            map (\<lambda>j. page_limit * j) [0..<k] @ [page_limit * k])"
    by (subst paginate_loop.simps) (simp add: assms(2,3))
  then show ?thesis using paginate_reaches_page [of k request pages] assms(1) by simp
qed

lemma paginate_object:
  assumes "\<forall>j<k. request page_limit (page_limit * j) = Inr (JList (pages j))
                 \<and> page_limit \<le> length (pages j)"
    and "request page_limit (page_limit * k) = Inr (JObject obj)"
  shows "paginate request = Some (Inr (JObject obj), map (\<lambda>j. page_limit * j) [0..<Suc k])"
proof -
  have "paginate_loop request (page_limit * k) (concat (map pages [0..<k]))
          (map (\<lambda>j. page_limit * j) [0..<k])
        = Some (Inr (JObject obj), map (\<lambda>j. page_limit * j) [0..<k] @ [page_limit * k])"
    by (subst paginate_loop.simps) (simp add: assms(2))
  then show ?thesis using paginate_reaches_page [of k request pages] assms(1) by simp
qed

subsection \<open>Retries in the Jira client\<close>










subsection \<open>Retries in the Linear client\<close>


subsection \<open>Comments and attachments\<close>

lemma migrate_comments_jira_blocks:
  "fst (migrate_comments_jira W k cs) = concat (map (\<lambda>c. fst (migrate_comment_jira W k c)) cs)"
  by (induction cs) (auto split: prod.splits)

lemma migrate_comments_linear_blocks:
  "fst (migrate_comments_linear r V k cs) = concat (map (\<lambda>c. fst (migrate_comment_linear r V k c)) cs)"
  by (induction cs) (auto split: prod.splits)

lemma migrate_attachments_jira_all:
  "migrate_attachments_jira W k as = (cs, Some names) \<Longrightarrow> cs = map (CreateAttachment k) as"
proof (induction as arbitrary: cs names)
  case Nil
  then show ?case by simp
next
  case (Cons a as)
  then show ?case
    by (auto split: if_splits option.splits prod.splits)
qed

lemma migrate_attachments_jira_uploaded:
  "migrate_attachments_jira W k as = (cs, Some names) \<Longrightarrow>
     list_all (\<lambda>a. jw_file_opens W (attachment_file_path a)) as
     \<and> map (jw_upload W k) as = map Some names"
proof (induction as arbitrary: cs names)
  case Nil
  then show ?case by simp
next
  case (Cons a as)
  then show ?case
    by (auto split: if_splits option.splits prod.splits)
qed

lemma migrate_attachments_jira_only_attachments:
  "call \<in> set (fst (migrate_attachments_jira W k as)) \<Longrightarrow> \<exists>a. call = CreateAttachment k a"
proof (induction as arbitrary: call)
  case Nil
  then show ?case by simp
next
  case (Cons a as)
  then show ?case
    by (auto split: if_splits option.splits prod.splits)
qed

lemma migrate_comment_jira_block:
  assumes "CreateComment k c names \<in> set (fst (migrate_comment_jira W k c'))"
  shows "c' = c \<and> fst (migrate_comment_jira W k c')
           = map (CreateAttachment k) (comment_attachments c) @ [CreateComment k c names]"
proof (cases "comment_attachments c' = []")
  case True
  with assms show ?thesis by (auto simp: migrate_comment_jira_def)
next
  case False
  obtain cs r where m: "migrate_attachments_jira W k (comment_attachments c') = (cs, r)"
    by (cases "migrate_attachments_jira W k (comment_attachments c')")
  have n: "CreateComment k c names \<notin> set cs"
    using migrate_attachments_jira_only_attachments [of "CreateComment k c names" W k "comment_attachments c'"] m
    by auto
  show ?thesis
  proof (cases r)
    case None
    with assms False m n show ?thesis by (simp add: migrate_comment_jira_def)
  next
    case (Some ns)
    with m have "cs = map (CreateAttachment k) (comment_attachments c')"
      using migrate_attachments_jira_all by blast
    with assms False m n Some show ?thesis by (auto simp: migrate_comment_jira_def)
  qed
qed

lemma migrate_comment_jira_uploaded:
  assumes "CreateComment k c names \<in> set (fst (migrate_comment_jira W k c))"
  shows "list_all (\<lambda>a. jw_file_opens W (attachment_file_path a)) (comment_attachments c)
         \<and> map (jw_upload W k) (comment_attachments c) = map Some names"
proof (cases "comment_attachments c = []")
  case True
  with assms show ?thesis by (auto simp: migrate_comment_jira_def)
next
  case False
  obtain cs r where m: "migrate_attachments_jira W k (comment_attachments c) = (cs, r)"
    by (cases "migrate_attachments_jira W k (comment_attachments c)")
  have n: "CreateComment k c names \<notin> set cs"
    using migrate_attachments_jira_only_attachments [of "CreateComment k c names" W k "comment_attachments c"] m
    by auto
  show ?thesis
  proof (cases r)
    case None
    with assms False m n show ?thesis by (simp add: migrate_comment_jira_def)
  next
    case (Some ns)
    with assms False m n have "ns = names" by (auto simp: migrate_comment_jira_def)
    with m Some show ?thesis using migrate_attachments_jira_uploaded by blast
  qed
qed

lemma creates_comment_iff:
  "creates_comment k c call \<longleftrightarrow> (\<exists>names. call = CreateComment k c names)"
  by (cases call) (auto simp: creates_comment_def)

lemma jira_attachments_before_in_blocks:
  assumes "\<exists>call \<in> set (concat (map (\<lambda>c. fst (migrate_comment_jira W k c)) cs)). creates_comment k c call"
    and "a \<in> set (comment_attachments c)"
  shows "CreateAttachment k a \<in> set (takeWhile (\<lambda>call. \<not> creates_comment k c call)
           (concat (map (\<lambda>c. fst (migrate_comment_jira W k c)) cs)))"
  using assms(1)
proof (induction cs)
  case Nil
  then show ?case by simp
next
  case (Cons c' cs)
  let ?b = "fst (migrate_comment_jira W k c')"
  let ?rest = "concat (map (\<lambda>c. fst (migrate_comment_jira W k c)) cs)"
  show ?case
  proof (cases "\<exists>call \<in> set ?b. creates_comment k c call")
    case True
    then obtain names where "CreateComment k c names \<in> set ?b"
      by (auto simp: creates_comment_iff)
    then have b: "?b = map (CreateAttachment k) (comment_attachments c) @ [CreateComment k c names]"
      using migrate_comment_jira_block by blast
    have "takeWhile (\<lambda>call. \<not> creates_comment k c call)
            ((map (CreateAttachment k) (comment_attachments c) @ [CreateComment k c names]) @ ?rest)
          = map (CreateAttachment k) (comment_attachments c)"
      by (simp add: takeWhile_append creates_comment_def takeWhile_eq_all_conv [THEN iffD2])
    with b assms(2) show ?thesis by simp
  next
    case False
    then have t: "takeWhile (\<lambda>call. \<not> creates_comment k c call) (?b @ ?rest)
        = ?b @ takeWhile (\<lambda>call. \<not> creates_comment k c call) ?rest"
      by simp
    from False Cons.prems have "\<exists>call \<in> set ?rest. creates_comment k c call" by auto
    from Cons.IH [OF this] t show ?thesis by simp
  qed
qed

lemma jira_attachments_before_comment:
  assumes "comment_created (fst (migrate_comments_jira W k cs)) k c"
  shows "attachments_before_comment (fst (migrate_comments_jira W k cs)) k c"
  using assms jira_attachments_before_in_blocks [of W k cs c]
  by (auto simp: comment_created_def attachments_before_comment_def list_all_iff list_ex_iff
        migrate_comments_jira_blocks)

lemma migrate_comment_linear_block:
  "\<exists>rest. fst (migrate_comment_linear r V k c) = CreateComment k c [] # rest
         \<and> set rest \<subseteq> CreateAttachment k ` set (comment_attachments c)"
  by (auto simp: migrate_comment_linear_def migrate_attachments_linear_def
        migrate_attachment_linear_def split: option.splits sum.splits if_splits)

subsection \<open>The marker files\<close>

lemma processed_teams_hold_no_int: "PyInt i \<notin> set (get_processed_teams U file)"
  by (auto simp: get_processed_teams_def split: option.splits)

text \<open>
  The Linear orchestrator compares the integer id of the project with the strings read
  from the marker file, so the guard never holds: the run is the same as a forced one.
\<close>

lemma linear_migrate_project_ignores_marker:
  "linear_migrate_project U W file p False = linear_migrate_project U W file p True"
  by (simp add: linear_migrate_project_def processed_teams_hold_no_int)

text \<open>The Jira orchestrator returns before any call when the id is among the integers read.\<close>

lemma jira_migrate_project_skips:
  assumes "get_imported_projects U file = Inr ids" and "PyInt (project_id p) \<in> set ids"
  shows "jira_migrate_project U W file p False = (Skipped, [], file)"
  using assms by (simp add: jira_migrate_project_def)

subsection \<open>Stories that fail to migrate\<close>

lemma snd_migrate_issues_jira_Cons:
  "snd (migrate_issues_jira W (x # xs) m)
     = snd (migrate_issues_jira W xs
         (case snd (jw_migrate_issue W x) of None \<Rightarrow> m | Some key \<Rightarrow> m(story_id x \<mapsto> key)))"
  by (auto split: prod.splits option.splits)

lemma migrate_issues_jira_left_out:
  assumes "\<forall>s \<in> set ss. story_id s = i \<longrightarrow> snd (jw_migrate_issue W s) = None"
  shows "snd (migrate_issues_jira W ss m) i = m i"
  using assms
proof (induction ss arbitrary: m)
  case Nil
  then show ?case by simp
next
  case (Cons x xs)
  then show ?case
    by (cases "snd (jw_migrate_issue W x)") (auto simp: snd_migrate_issues_jira_Cons simp del: migrate_issues_jira.simps)
qed

lemma migrate_issues_jira_untouched:
  assumes "i \<notin> story_id ` set ss"
  shows "snd (migrate_issues_jira W ss m) i = m i"
  using assms
proof (induction ss arbitrary: m)
  case Nil
  then show ?case by simp
next
  case (Cons x xs)
  then show ?case
    by (cases "snd (jw_migrate_issue W x)") (auto simp: snd_migrate_issues_jira_Cons simp del: migrate_issues_jira.simps)
qed

lemma migrate_issues_jira_kept:
  assumes "s \<in> set ss" and "snd (jw_migrate_issue W s) = Some key" and "distinct (map story_id ss)"
  shows "snd (migrate_issues_jira W ss m) (story_id s) = Some key"
  using assms
proof (induction ss arbitrary: m)
  case Nil
  then show ?case by simp
next
  case (Cons x xs)
  show ?case
  proof (cases "s = x")
    case True
    with Cons.prems have "story_id s \<notin> story_id ` set xs" by auto
    from migrate_issues_jira_untouched [OF this] True Cons.prems(2) show ?thesis
      by (simp add: snd_migrate_issues_jira_Cons del: migrate_issues_jira.simps)
  next
    case False
    with Cons.prems have "s \<in> set xs" "distinct (map story_id xs)" by auto
    with Cons.IH Cons.prems(2) show ?thesis
      by (simp add: snd_migrate_issues_jira_Cons del: migrate_issues_jira.simps)
  qed
qed

lemma for_each_raises:
  assumes "x \<in> set xs" and "snd (body x) \<noteq> None"
  shows "snd (for_each body xs) \<noteq> None"
  using assms
proof (induction xs)
  case Nil
  then show ?case by simp
next
  case (Cons y ys)
  then show ?case by (cases "body y") (auto split: prod.splits option.splits)
qed

text \<open>
  An exception of \<open>process_blockers\<close> is the \<open>ValueError\<close> of \<open>int(...)\<close> on a text that
  \<open>isdigit\<close> accepted, and one unresolved blocker with such a text makes the function raise.
\<close>

lemma for_each_error_source:
  "snd (for_each body xs) = Some e \<Longrightarrow> \<exists>x \<in> set xs. snd (body x) = Some e"
proof (induction xs)
  case Nil
  then show ?case by simp
next
  case (Cons y ys)
  then show ?case by (cases "body y") (auto split: prod.splits option.splits)
qed

lemma process_blocker_error:
  assumes "snd (process_blocker U m st b) = Some e"
  shows "e = ValueError"
  using assms blocker_reference_token [of U "blocker_description b"]
  by (auto simp: process_blocker_def split: if_splits sum.splits option.splits)

lemma process_blocker_raises:
  assumes "\<not> blocker_resolved b" and "35 \<in> set (blocker_description b)"
    and "str_isdigit U (token_after_hash (blocker_description b))"
    and "py_int U (token_after_hash (blocker_description b)) = None"
  shows "process_blocker U m st b = ([], Some ValueError)"
  using assms blocker_reference_token [of U "blocker_description b"]
  by (simp add: process_blocker_def)

lemma process_blockers_raise:
  assumes "st \<in> set sts" and "b \<in> set (story_blockers st)"
    and "\<not> blocker_resolved b" and "35 \<in> set (blocker_description b)"
    and "str_isdigit U (token_after_hash (blocker_description b))"
    and "py_int U (token_after_hash (blocker_description b)) = None"
  shows "snd (process_blockers U m sts) = Some ValueError"
proof -
  have "snd (process_blocker U m st b) \<noteq> None"
    using process_blocker_raises [OF assms(3-6), of m st] by simp
  with assms(2) have "snd (for_each (process_blocker U m st) (story_blockers st)) \<noteq> None"
    using for_each_raises [of b "story_blockers st" "process_blocker U m st"] by blast
  with assms(1) have "snd (process_blockers U m sts) \<noteq> None"
    unfolding process_blockers_def
    using for_each_raises [of st sts
        "\<lambda>pt_story. for_each (process_blocker U m pt_story) (story_blockers pt_story)"]
    by blast
  then obtain e where e: "snd (process_blockers U m sts) = Some e" by blast
  then obtain st' where "snd (for_each (process_blocker U m st') (story_blockers st')) = Some e"
    unfolding process_blockers_def
    using for_each_error_source [of
        "\<lambda>pt_story. for_each (process_blocker U m pt_story) (story_blockers pt_story)" sts e]
    by blast
  then obtain b' where "snd (process_blocker U m st' b') = Some e"
    using for_each_error_source [of "process_blocker U m st'" "story_blockers st'" e] by blast
  then have "e = ValueError" by (rule process_blocker_error)
  with e show ?thesis by simp
qed

lemma and_then_returns:
  assumes "snd (and_then m f) = Inr b"
  shows "\<exists>a. snd m = Inr a \<and> snd (f a) = Inr b"
  using assms by (auto simp: and_then_def split: prod.splits sum.splits)

lemma raising_returns: "snd (raising m) = Inr u \<Longrightarrow> snd m = None"
  by (auto simp: raising_def split: prod.splits option.splits)

text \<open>
  A story whose issue could not be created is absent from the issue map, the lookup
  \<open>issue_map[pt_story.id]\<close> of the comment loop raises \<open>KeyError\<close>, and the \<open>try\<close> block of the
  Jira orchestrator does not return.
\<close>

lemma jira_try_block_raises:
  assumes "s \<in> set (project_stories p)" and "snd (jw_migrate_issue W s) = None"
    and "distinct (map story_id (project_stories p))"
  shows "\<exists>e. snd (jira_try_block U W p) = Inl e"
proof (rule ccontr)
  assume "\<not> (\<exists>e. snd (jira_try_block U W p) = Inl e)"
  then obtain u where r: "snd (jira_try_block U W p) = Inr u"
    by (cases "snd (jira_try_block U W p)") auto
  let ?m = "snd (migrate_issues_jira W (project_stories p) Map.empty)"
  have "\<forall>t \<in> set (project_stories p). story_id t = story_id s \<longrightarrow> snd (jw_migrate_issue W t) = None"
  proof (intro ballI impI)
    fix t assume "t \<in> set (project_stories p)" "story_id t = story_id s"
    with assms(1,3) have "t = s" by (meson distinct_map inj_onD)
    with assms(2) show "snd (jw_migrate_issue W t) = None" by simp
  qed
  then have "?m (story_id s) = None"
    using migrate_issues_jira_left_out [of "project_stories p" "story_id s" W Map.empty] by simp
  then have "snd (migrate_story_comments_jira W ?m s) \<noteq> None"
    by (simp add: migrate_story_comments_jira_def)
  then have f: "snd (for_each (migrate_story_comments_jira W ?m) (project_stories p)) \<noteq> None"
    using for_each_raises [of s "project_stories p" "migrate_story_comments_jira W ?m"] assms(1)
    by simp
  from r have q: "snd (raising (for_each (migrate_story_comments_jira W ?m) (project_stories p))) = Inr u"
    unfolding jira_try_block_def
    by (auto dest!: and_then_returns split: prod.splits)
  from raising_returns [OF q] f show False by simp
qed

subsection \<open>Writing and reading an id\<close>

lemma decimal_value_append:
  "decimal_value U (xs @ ys) acc
     = (case decimal_value U xs acc of None \<Rightarrow> None | Some a \<Rightarrow> decimal_value U ys a)"
  by (induction xs arbitrary: acc) (auto split: option.splits)

lemma digits_of_nat_range: "c \<in> set (digits_of_nat n) \<Longrightarrow> 48 \<le> c \<and> c \<le> 57"
proof (induction n arbitrary: c rule: digits_of_nat.induct)
  case (1 n)
  show ?case
  proof (cases "n < 10")
    case True
    with "1.prems" show ?thesis by (simp add: digits_of_nat.simps [of n])
  next
    case False
    with "1.prems" have "c \<in> set (digits_of_nat (n div 10)) \<or> c = 48 + n mod 10"
      by (auto simp: digits_of_nat.simps [of n])
    with "1.IH" [OF False] show ?thesis by auto
  qed
qed

lemma digits_of_nat_not_empty: "digits_of_nat n \<noteq> []"
  by (subst digits_of_nat.simps) simp

lemma decimal_value_digits: "decimal_value ascii (digits_of_nat n) 0 = Some n"
proof (induction n rule: digits_of_nat.induct)
  case (1 n)
  show ?case
  proof (cases "n < 10")
    case True
    then show ?thesis by (simp add: digits_of_nat.simps [of n] ascii_def)
  next
    case False
    have "decimal_value ascii (digits_of_nat (n div 10) @ [48 + n mod 10]) 0 = Some n"
      unfolding decimal_value_append "1.IH" [OF False] by (simp add: ascii_def)
    with False show ?thesis by (simp add: digits_of_nat.simps [of n])
  qed
qed

lemma lstrip_id: "s \<noteq> [] \<Longrightarrow> \<not> u_isspace U (hd s) \<Longrightarrow> lstrip U s = s"
  by (cases s) (simp_all add: lstrip_def)

lemma strip_id:
  assumes "s \<noteq> []" "\<not> u_isspace U (hd s)" "\<not> u_isspace U (last s)"
  shows "strip U s = s"
proof -
  have "lstrip U s = s" using assms(1,2) by (rule lstrip_id)
  moreover have "lstrip U (rev s) = rev s"
    using assms(1,3) by (intro lstrip_id) (simp_all add: hd_rev)
  ultimately show ?thesis by (simp add: strip_def)
qed

lemma split_on_absent: "sep \<notin> set s \<Longrightarrow> split_on sep s = [s]"
  using split_on_unfold [of sep s] by auto

lemma ascii_digit_not_space: "48 \<le> c \<and> c \<le> 57 \<Longrightarrow> \<not> u_isspace ascii c"
  by (simp add: ascii_def)

lemma strip_digits: "strip ascii (digits_of_nat n) = digits_of_nat n"
proof -
  let ?d = "digits_of_nat n"
  have ne: "?d \<noteq> []" by (rule digits_of_nat_not_empty)
  then have "hd ?d \<in> set ?d" "last ?d \<in> set ?d" by simp_all
  then have "\<not> u_isspace ascii (hd ?d)" "\<not> u_isspace ascii (last ?d)"
    using digits_of_nat_range ascii_digit_not_space by blast+
  with ne show ?thesis by (intro strip_id)
qed

lemma py_int_digits: "py_int ascii (digits_of_nat n) = Some (int n)"
proof -
  let ?d = "digits_of_nat n"
  have ne: "?d \<noteq> []" by (rule digits_of_nat_not_empty)
  then have "hd ?d \<in> set ?d" by simp
  then have h: "hd ?d \<noteq> 45" "hd ?d \<noteq> 43" using digits_of_nat_range [of "hd ?d" n] by auto
  have "95 \<notin> set ?d" using digits_of_nat_range [of 95 n] by auto
  then have sp: "split_on 95 ?d = [?d]" by (rule split_on_absent)
  show ?thesis
    by (simp add: py_int_def strip_digits Let_def h sp ne decimal_value_digits)
qed

lemma py_int_minus_digits: "py_int ascii (45 # digits_of_nat n) = Some (- int n)"
proof -
  let ?d = "digits_of_nat n"
  have ne: "?d \<noteq> []" by (rule digits_of_nat_not_empty)
  then have "last ?d \<in> set ?d" by simp
  then have "\<not> u_isspace ascii (last (45 # ?d))"
    using digits_of_nat_range [of "last ?d" n] ascii_digit_not_space ne by simp
  moreover have "\<not> u_isspace ascii (hd (45 # ?d))" by (simp add: ascii_def)
  ultimately have st: "strip ascii (45 # ?d) = 45 # ?d" by (intro strip_id) simp_all
  have "95 \<notin> set ?d" using digits_of_nat_range [of 95 n] by auto
  then have sp: "split_on 95 ?d = [?d]" by (rule split_on_absent)
  show ?thesis
    by (simp add: py_int_def st Let_def sp ne decimal_value_digits)
qed

lemma py_int_str_of_int: "py_int ascii (str_of_int i) = Some i"
  by (simp add: str_of_int_def py_int_digits py_int_minus_digits)

lemma str_of_int_plain:
  "str_of_int i \<noteq> [] \<and> strip ascii (str_of_int i) = str_of_int i \<and> 10 \<notin> set (str_of_int i)"
proof (cases "i < 0")
  case False
  then show ?thesis
    using digits_of_nat_range [of 10 "nat i"]
    by (auto simp: str_of_int_def digits_of_nat_not_empty strip_digits)
next
  case True
  let ?d = "digits_of_nat (nat (- i))"
  have ne: "?d \<noteq> []" by (rule digits_of_nat_not_empty)
  then have "last ?d \<in> set ?d" by simp
  then have "\<not> u_isspace ascii (last (45 # ?d))"
    using digits_of_nat_range [of "last ?d" "nat (- i)"] ascii_digit_not_space ne by simp
  moreover have "\<not> u_isspace ascii (hd (45 # ?d))" by (simp add: ascii_def)
  ultimately have "strip ascii (45 # ?d) = 45 # ?d" by (intro strip_id) simp_all
  with True show ?thesis
    using digits_of_nat_range [of 10 "nat (- i)"] by (auto simp: str_of_int_def)
qed

lemma split_on_not_Nil: "split_on sep s \<noteq> []"
  by (cases s) (auto split: list.splits)

lemma split_on_append: "split_on sep (c @ sep # d) = split_on sep c @ split_on sep d"
proof (induction c)
  case Nil
  then show ?case by simp
next
  case (Cons x xs)
  then show ?case using split_on_not_Nil [of sep xs] by (auto split: list.splits)
qed

lemma stripped_lines_append:
  "stripped_lines U (c @ 10 # d) = stripped_lines U c @ stripped_lines U d"
proof -
  have "split_on 10 (c @ 10 # d) = split_on 10 c @ split_on 10 d"
    using split_on_append [of 10 c d] by simp
  then show ?thesis by (simp add: stripped_lines_def)
qed

lemma stripped_lines_Nil: "stripped_lines U [] = []"
  by (simp add: stripped_lines_def strip_def lstrip_def)

lemma stripped_lines_id: "stripped_lines ascii (str_of_int i) = [str_of_int i]"
  using str_of_int_plain [of i] by (simp add: stripped_lines_def split_on_absent)

lemma ints_of_lines_append:
  "ints_of_lines U (xs @ ys)
     = (case ints_of_lines U xs of
          Inl e \<Rightarrow> Inl e
        | Inr ns \<Rightarrow> (case ints_of_lines U ys of Inl e \<Rightarrow> Inl e | Inr ms \<Rightarrow> Inr (ns @ ms)))"
  by (induction xs) (auto split: option.splits sum.splits)

text \<open>
  A marker file is well formed when it is absent, empty, or ends with a line end, as every
  file written by \<open>mark_project_as_imported\<close> does.
\<close>

lemma get_imported_projects_after_mark:
  assumes "get_imported_projects ascii file = Inr ids"
    and "file = None \<or> file = Some [] \<or> (\<exists>c. file = Some (c @ [10]))"
  shows "get_imported_projects ascii (mark_project_as_imported i file) = Inr (ids @ [PyInt i])"
proof -
  from assms(2) consider "file = None \<or> file = Some []" | c where "file = Some (c @ [10])" by blast
  then show ?thesis
  proof cases
    case 1
    with assms(1) have "ids = []"
      by (auto simp: get_imported_projects_def stripped_lines_def strip_def lstrip_def)
    with 1 show ?thesis
      by (auto simp: get_imported_projects_def mark_project_as_imported_def append_id_line_def
            stripped_lines_append stripped_lines_Nil stripped_lines_id py_int_str_of_int)
  next
    case 2
    have "stripped_lines ascii (c @ 10 # (str_of_int i @ [10]))
        = stripped_lines ascii (c @ 10 # []) @ [str_of_int i]"
      by (simp add: stripped_lines_append stripped_lines_Nil stripped_lines_id)
    with assms(1) 2 show ?thesis
      by (simp add: get_imported_projects_def mark_project_as_imported_def append_id_line_def
            ints_of_lines_append py_int_str_of_int)
  qed
qed

text \<open>
  The Jira orchestrator is idempotent: after a run that completed, a second run without
  \<open>force_update\<close> returns at once and issues no call, whatever the remote side would do.
\<close>

lemma jira_second_run_skipped:
  assumes "jira_migrate_project ascii W file p force = (Migrated, calls, file')"
    and "file = None \<or> file = Some [] \<or> (\<exists>c. file = Some (c @ [10]))"
  shows "jira_migrate_project ascii W' file' p False = (Skipped, [], file')"
proof -
  from assms(1) obtain ids where ids: "get_imported_projects ascii file = Inr ids"
    and f: "file' = mark_project_as_imported (project_id p) file"
    by (auto simp: jira_migrate_project_def split: sum.splits if_splits prod.splits)
  from get_imported_projects_after_mark [OF ids assms(2), of "project_id p"] f
  show ?thesis by (simp add: jira_migrate_project_def)
qed

subsection \<open>Arithmetic of doubles on numerals\<close>

lemma bit_length_numeral:
  "bit_length (numeral k) = 1 + bit_length (numeral k div 2)"
  "bit_length 1 = 1" "bit_length 0 = 0"
  by (subst bit_length.simps, simp)+

lemmas dbl_eval = py_float_def dbl_add_def dbl_sub_def dbl_mul_def dbl_div_def dbl_less_def
  round53_def Let_def bit_length_numeral

section \<open>Claims\<close>

text \<open>
  C1, at the input where the code departs from it. The marker file of the Linear side
  holds the line \<open>7\<close>, which is what \<open>mark_team_as_processed\<close> writes for project 7. On a
  run for project 7 with \<open>force_update = False\<close> the file yields the string \<open>7\<close>, the
  integer 7 is not a member of that set, and the migration is not skipped: it begins with
  the call that creates the team and goes on until \<open>migrate_issues\<close> raises. The Jira
  orchestrator reads integers from its file and returns without a call.
\<close>

theorem linear_second_run_is_not_skipped:
  "mark_team_as_processed 7 None = Some (py ''7'' @ [10])
   \<and> get_processed_teams ascii (mark_team_as_processed 7 None) = [PyStr (py ''7'')]
   \<and> linear_migrate_project ascii kind_linear_world (mark_team_as_processed 7 None) project7 False
      = (Raised (Py NameError),
         [StepCall ''teamCreate'', StepCall ''users'', StepCall ''projectCreate'', StepCall ''cycleCreate''],
         mark_team_as_processed 7 None)
   \<and> jira_migrate_project ascii kind_jira_world (mark_project_as_imported 7 None) project7 False
      = (Skipped, [], mark_project_as_imported 7 None)"
proof -
  have d: "str_of_int 7 = py ''7''"
    by (simp add: str_of_int_def digits_of_nat.simps py_def)
  have m: "mark_team_as_processed 7 None = Some (py ''7'' @ [10])"
    "mark_project_as_imported 7 None = Some (py ''7'' @ [10])"
    by (simp_all add: mark_team_as_processed_def mark_project_as_imported_def append_id_line_def d)
  have l: "stripped_lines ascii (py ''7'' @ [10]) = [py ''7'']"
    by (simp add: stripped_lines_def strip_def lstrip_def ascii_def py_def)
  have g: "get_processed_teams ascii (Some (py ''7'' @ [10])) = [PyStr (py ''7'')]"
    by (simp add: get_processed_teams_def l)
  have i: "get_imported_projects ascii (Some (py ''7'' @ [10])) = Inr [PyInt 7]"
    by (simp add: get_imported_projects_def l)
       (simp add: py_int_def strip_def lstrip_def ascii_def py_def)
  have a: "linear_migrate_project ascii kind_linear_world (Some (py ''7'' @ [10])) project7 False
      = (Raised (Py NameError),
         [StepCall ''teamCreate'', StepCall ''users'', StepCall ''projectCreate'', StepCall ''cycleCreate''],
         Some (py ''7'' @ [10]))"
    by (simp add: linear_migrate_project_def g linear_try_block_def and_then_def raising_def
          kind_linear_world_def migrate_issues_linear_def)
  have b: "jira_migrate_project ascii kind_jira_world (Some (py ''7'' @ [10])) project7 False
      = (Skipped, [], Some (py ''7'' @ [10]))"
    by (simp add: jira_migrate_project_def i project7_def)
  from m g a b show ?thesis by simp
qed

text \<open>
  C2, at the input where the code departs from it. Of the two stories of the project,
  story 42 raises in \<open>migrate_issue\<close> and every other step succeeds. Story 43 is in the
  issue map and story 42 is not, as the claim says; but the Jira orchestrator then looks up
  the issue of story 42 for its comments, and the run ends with \<open>JiraMigrationError\<close>
  (caused by \<open>KeyError\<close>) without the project being marked as imported.
\<close>

theorem jira_failed_story_aborts_project:
  "snd (migrate_issues_jira flaky_jira_world (project_stories project7) Map.empty) 43 = Some (py ''K-43'')
   \<and> snd (migrate_issues_jira flaky_jira_world (project_stories project7) Map.empty) 42 = None
   \<and> jira_migrate_project ascii flaky_jira_world None project7 False
      = (Raised (Py KeyError),
         [StepCall ''project'', StepCall ''user'', StepCall ''epic'', StepCall ''issue'',
          StepCall ''issue'', StepCall ''parent'', StepCall ''sprint''],
         None)"
proof -
  have d: "str_of_int 43 = py ''43''"
    by (simp add: str_of_int_def digits_of_nat.simps py_def)
  have r: "blocker_reference ascii (py ''Blocked by #42 pending review'') = Inr (Some 42)"
    by (simp add: blocker_reference_def str_isdigit_def py_int_def strip_def lstrip_def
          ascii_def py_def)
  have m: "migrate_issues_jira flaky_jira_world (project_stories project7) Map.empty
      = ([StepCall ''issue'', StepCall ''issue''], [43 \<mapsto> py ''K-43''])"
    by (simp add: project7_def flaky_jira_world_def kind_jira_world_def story42_def story43_def d py_def)
  have b: "blockers_step ascii [43 \<mapsto> py ''K-43''] (project_stories project7) = ([], None)"
    by (simp add: blockers_step_def process_blockers_def process_blocker_def project7_def
          story42_def story43_def r)
  have c: "for_each (migrate_story_comments_jira flaky_jira_world [43 \<mapsto> py ''K-43''])
             (project_stories project7) = ([], Some (Py KeyError))"
    by (simp add: project7_def migrate_story_comments_jira_def story42_def)
  have s: "jw_step flaky_jira_world = jw_step kind_jira_world"
    by (simp add: flaky_jira_world_def)
  have t: "jira_try_block ascii flaky_jira_world project7
      = ([StepCall ''project'', StepCall ''user'', StepCall ''epic'', StepCall ''issue'',
          StepCall ''issue'', StepCall ''parent'', StepCall ''sprint''], Inl (Py KeyError))"
    by (simp add: jira_try_block_def m b c s and_then_def raising_def kind_jira_world_def)
  have "jira_migrate_project ascii flaky_jira_world None project7 False
      = (Raised (Py KeyError),
         [StepCall ''project'', StepCall ''user'', StepCall ''epic'', StepCall ''issue'',
          StepCall ''issue'', StepCall ''parent'', StepCall ''sprint''],
         None)"
    by (simp add: jira_migrate_project_def get_imported_projects_def t)
  with m show ?thesis by simp
qed

text \<open>
  C3, at the input where the code departs from it. Stories 42 and 43 both have an issue,
  and story 43 carries the unresolved blocker \<open>Blocked by #42 pending review\<close>. The Jira
  migrator requests the one link from the issue of 42 to the issue of 43. The Linear
  migrator requests a relation from the issue of 43 to itself, and requests the same
  relation when story 42 has no issue at all.
\<close>

theorem linear_blocker_relation_is_self_relation:
  "process_blockers ascii [42 \<mapsto> py ''K-42'', 43 \<mapsto> py ''K-43''] [story42, story43]
     = ([CreateBlockerLink (py ''K-42'') (py ''K-43'')], None)
   \<and> migrate_relations (\<lambda>c. True) [42 \<mapsto> py ''L42'', 43 \<mapsto> py ''L43''] [story42, story43]
     = [CreateIssueRelation (py ''L43'') (py ''L43'') (py ''blocks'')]
   \<and> migrate_relations (\<lambda>c. True) [43 \<mapsto> py ''L43''] [story42, story43]
     = [CreateIssueRelation (py ''L43'') (py ''L43'') (py ''blocks'')]"
proof -
  have r: "blocker_reference ascii (py ''Blocked by #42 pending review'') = Inr (Some 42)"
    by (simp add: blocker_reference_def str_isdigit_def py_int_def strip_def lstrip_def
          ascii_def py_def)
  have j: "process_blockers ascii [42 \<mapsto> py ''K-42'', 43 \<mapsto> py ''K-43''] [story42, story43]
     = ([CreateBlockerLink (py ''K-42'') (py ''K-43'')], None)"
    by (simp add: process_blockers_def process_blocker_def story42_def story43_def r)
  have l1: "migrate_relations (\<lambda>c. True) [42 \<mapsto> py ''L42'', 43 \<mapsto> py ''L43''] [story42, story43]
     = [CreateIssueRelation (py ''L43'') (py ''L43'') (py ''blocks'')]"
    by (simp add: migrate_relations_def migrate_story_relations_def migrate_blocker_def
          story42_def story43_def)
  have l2: "migrate_relations (\<lambda>c. True) [43 \<mapsto> py ''L43''] [story42, story43]
     = [CreateIssueRelation (py ''L43'') (py ''L43'') (py ''blocks'')]"
    by (simp add: migrate_relations_def migrate_story_relations_def migrate_blocker_def
          story42_def story43_def)
  from j l1 l2 show ?thesis by blast
qed

text \<open>
  C4 as stated fails: in \<open>See #abc and #42 now\<close> the first \<open>#\<close> is followed by letters, and
  the code reads no reference at all, where the first \<open>#\<close>-prefixed run of digits is 42.
  In \<open>#42, later\<close> the digits are followed by a comma, and again nothing is read.
\<close>

theorem blocker_reference_counterexample:
  "blocker_reference ascii (py ''See #abc and #42 now'') = Inr None
   \<and> spec_blocker_reference ascii (py ''See #abc and #42 now'') = Inr (Some 42)
   \<and> blocker_reference ascii (py ''#42, later'') = Inr None
   \<and> spec_blocker_reference ascii (py ''#42, later'') = Inr (Some 42)"
  by (simp add: blocker_reference_def spec_blocker_reference_def str_isdigit_def py_int_def
        strip_def lstrip_def ascii_def py_def)

text \<open>
  C4, amended. The code looks only at the text between the first \<open>#\<close> of the description
  and the next space or \<open>#\<close> (or the end). It reads a reference exactly when that text is
  a non-empty string of digits, and the reference is then the number this text denotes;
  a later \<open>#\<close> is never considered. "String of digits" is what \<open>isdigit\<close> accepts, and
  "denotes" is what \<open>int(...)\<close> reads: when that text passes \<open>isdigit\<close> and \<open>int(...)\<close>
  rejects it (a superscript two, U+00B2, is such a text), no reference is read and
  \<open>ValueError\<close> is raised; \<open>process_blockers\<close> does not catch it, so one unresolved blocker
  with such a text among the stories makes \<open>process_blockers\<close> raise \<open>ValueError\<close>. In every
  other case nothing is raised and no reference is read. Whenever a reference is read, it
  is the first \<open>#\<close>-prefixed run of digits of the description (space and \<open>#\<close> not being
  digits).
\<close>

theorem blocker_reference_amended:
  "blocker_reference U s =
     (if 35 \<in> set s \<and> str_isdigit U (token_after_hash s)
      then (case py_int U (token_after_hash s) of None \<Rightarrow> Inl ValueError | Some n \<Rightarrow> Inr (Some n))
      else Inr None)
   \<and> (\<not> u_isdigit U 32 \<and> \<not> u_isdigit U 35 \<and> blocker_reference U s = Inr (Some n)
        \<longrightarrow> spec_blocker_reference U s = Inr (Some n))
   \<and> (st \<in> set sts \<and> b \<in> set (story_blockers st) \<and> \<not> blocker_resolved b
        \<and> 35 \<in> set (blocker_description b)
        \<and> str_isdigit U (token_after_hash (blocker_description b))
        \<and> py_int U (token_after_hash (blocker_description b)) = None
        \<longrightarrow> snd (process_blockers U m sts) = Some ValueError)"
  using blocker_reference_token [of U s] blocker_reference_agrees_with_spec [of U s n]
    process_blockers_raise [of st sts b U m]
  by blast

text \<open>
  Runs of C4: a reference that is read, and a blocker whose text after the \<open>#\<close> is a
  superscript two, which makes \<open>process_blockers\<close> raise \<open>ValueError\<close>.
\<close>

theorem blocker_reference_amended_witness:
  "\<not> u_isdigit ascii 32 \<and> \<not> u_isdigit ascii 35
   \<and> token_after_hash (py ''Blocked by #42 pending review'') = py ''42''
   \<and> blocker_reference ascii (py ''Blocked by #42 pending review'') = Inr (Some 42)
   \<and> spec_blocker_reference ascii (py ''Blocked by #42 pending review'') = Inr (Some 42)
   \<and> token_after_hash (py ''Blocked by #'' @ [178]) = [178]
   \<and> str_isdigit superscripts [178] \<and> py_int superscripts [178] = None
   \<and> blocker_reference superscripts (py ''Blocked by #'' @ [178]) = Inl ValueError
   \<and> snd (process_blockers superscripts [42 \<mapsto> py ''K-42'', 44 \<mapsto> py ''K-44''] [story42, story44])
       = Some ValueError"
proof -
  have d: "\<not> u_isdigit ascii 32 \<and> \<not> u_isdigit ascii 35" by (simp add: ascii_def)
  have t: "token_after_hash (py ''Blocked by #42 pending review'') = py ''42''"
    by (simp add: token_after_hash_def py_def)
  have i: "py_int ascii (py ''42'') = Some 42"
    by (simp add: py_int_def strip_def lstrip_def ascii_def py_def)
  have h: "35 \<in> set (py ''Blocked by #42 pending review'')" by (simp add: py_def)
  have g: "str_isdigit ascii (py ''42'')" by (simp add: str_isdigit_def ascii_def py_def)
  from blocker_reference_amended [of ascii "py ''Blocked by #42 pending review''" 42]
  have r: "blocker_reference ascii (py ''Blocked by #42 pending review'') = Inr (Some 42)"
    and imp: "\<not> u_isdigit ascii 32 \<and> \<not> u_isdigit ascii 35
         \<and> blocker_reference ascii (py ''Blocked by #42 pending review'') = Inr (Some 42)
      \<longrightarrow> spec_blocker_reference ascii (py ''Blocked by #42 pending review'') = Inr (Some 42)"
    using t i h g by simp_all
  have t': "token_after_hash (py ''Blocked by #'' @ [178]) = [178]"
    by (simp add: token_after_hash_def py_def)
  have g': "str_isdigit superscripts [178]"
    by (simp add: str_isdigit_def superscripts_def ascii_def)
  have i': "py_int superscripts [178] = None"
    by (simp add: py_int_def strip_def lstrip_def superscripts_def ascii_def)
  have h': "35 \<in> set (py ''Blocked by #'' @ [178])" by (simp add: py_def)
  let ?b = "\<lparr> blocker_story_id = 44, blocker_description = py ''Blocked by #'' @ [178],
             blocker_resolved = False \<rparr>"
  have m: "story44 \<in> set [story42, story44]" "?b \<in> set (story_blockers story44)"
    "\<not> blocker_resolved ?b" "blocker_description ?b = py ''Blocked by #'' @ [178]"
    by (simp_all add: story44_def)
  note u = blocker_reference_amended [of superscripts "py ''Blocked by #'' @ [178]" 0
      story44 "[story42, story44]" ?b "[42 \<mapsto> py ''K-42'', 44 \<mapsto> py ''K-44'']"]
  have r': "blocker_reference superscripts (py ''Blocked by #'' @ [178]) = Inl ValueError"
    using u [THEN conjunct1] t' g' i' h' by simp
  have p: "snd (process_blockers superscripts [42 \<mapsto> py ''K-42'', 44 \<mapsto> py ''K-44''] [story42, story44])
       = Some ValueError"
    using u [THEN conjunct2, THEN conjunct2] m t' g' i' h' by simp
  from d r imp
  have sp: "spec_blocker_reference ascii (py ''Blocked by #42 pending review'') = Inr (Some 42)"
    by blast
  from d t r sp t' g' i' r' p show ?thesis by blast
qed

text \<open>
  C5 as stated fails for the Linear migrator: for a comment with one attachment the call
  that creates the comment is the first call, and no call for the attachment precedes it
  (with the path resolution of the code no such call is issued at all; were the path
  resolved, the attachment would be created after the comment).
\<close>

theorem linear_comment_before_attachments_counterexample:
  "fst (migrate_comments_linear get_attachment_path_call kind_linear_world (py ''L43'') [comment9, comment10])
     = [CreateComment (py ''L43'') comment9 [], CreateComment (py ''L43'') comment10 []]
   \<and> comment_created
        (fst (migrate_comments_linear get_attachment_path_call kind_linear_world (py ''L43'') [comment9, comment10]))
        (py ''L43'') comment9
   \<and> \<not> attachments_before_comment
        (fst (migrate_comments_linear get_attachment_path_call kind_linear_world (py ''L43'') [comment9, comment10]))
        (py ''L43'') comment9
   \<and> fst (migrate_comments_linear Inr kind_linear_world (py ''L43'') [comment9, comment10])
     = [CreateComment (py ''L43'') comment9 [], CreateAttachment (py ''L43'') screenshot,
        CreateComment (py ''L43'') comment10 []]"
  by (simp add: migrate_comment_linear_def migrate_attachments_linear_def
        migrate_attachment_linear_def get_attachment_path_call_def kind_linear_world_def
        comment_created_def attachments_before_comment_def creates_comment_def
        comment9_def comment10_def)

text \<open>
  C5, amended. In both migrators the comments of a story are taken in their source order:
  the calls of \<open>migrate_comments\<close> are the calls of its comments, one comment after the
  other. In the Jira migrator a comment is created only after every one of its
  attachments has been uploaded: the calls of a comment that is created are the uploads
  of all its attachments, in order, followed by the call that creates the comment, so in
  the calls of the story every attachment of a created comment precedes the creation of
  the comment; and the call that creates the comment is issued only if all these uploads
  succeeded, that is, the file of every attachment could be opened and every upload was
  answered with a file name, these names, in order, being the ones handed to the call.
  A comment one of whose attachments fails is not created. In the Linear migrator the call that creates the comment comes first, and
  any call for one of its attachments comes after it.
\<close>

theorem comments_and_attachments_order:
  "fst (migrate_comments_jira W issue cs) = concat (map (\<lambda>c. fst (migrate_comment_jira W issue c)) cs)
   \<and> (\<forall>c names. CreateComment issue c names \<in> set (fst (migrate_comment_jira W issue c))
         \<longrightarrow> fst (migrate_comment_jira W issue c)
              = map (CreateAttachment issue) (comment_attachments c) @ [CreateComment issue c names])
   \<and> (\<forall>c. comment_created (fst (migrate_comments_jira W issue cs)) issue c
         \<longrightarrow> attachments_before_comment (fst (migrate_comments_jira W issue cs)) issue c)
   \<and> fst (migrate_comments_linear resolve V issue cs)
       = concat (map (\<lambda>c. fst (migrate_comment_linear resolve V issue c)) cs)
   \<and> (\<forall>c. \<exists>rest. fst (migrate_comment_linear resolve V issue c) = CreateComment issue c [] # rest
         \<and> set rest \<subseteq> CreateAttachment issue ` set (comment_attachments c))
   \<and> (\<forall>c names. CreateComment issue c names \<in> set (fst (migrate_comment_jira W issue c))
         \<longrightarrow> list_all (\<lambda>a. jw_file_opens W (attachment_file_path a)) (comment_attachments c)
              \<and> map (jw_upload W issue) (comment_attachments c) = map Some names)"
proof -
  have old: "fst (migrate_comments_jira W issue cs) = concat (map (\<lambda>c. fst (migrate_comment_jira W issue c)) cs)
   \<and> (\<forall>c names. CreateComment issue c names \<in> set (fst (migrate_comment_jira W issue c))
         \<longrightarrow> fst (migrate_comment_jira W issue c)
              = map (CreateAttachment issue) (comment_attachments c) @ [CreateComment issue c names])
   \<and> (\<forall>c. comment_created (fst (migrate_comments_jira W issue cs)) issue c
         \<longrightarrow> attachments_before_comment (fst (migrate_comments_jira W issue cs)) issue c)
   \<and> fst (migrate_comments_linear resolve V issue cs)
       = concat (map (\<lambda>c. fst (migrate_comment_linear resolve V issue c)) cs)
   \<and> (\<forall>c. \<exists>rest. fst (migrate_comment_linear resolve V issue c) = CreateComment issue c [] # rest
         \<and> set rest \<subseteq> CreateAttachment issue ` set (comment_attachments c))"
    using migrate_comments_jira_blocks [of W issue cs] migrate_comment_jira_block [of issue _ _ W]
      jira_attachments_before_comment [of W issue cs]
      migrate_comments_linear_blocks [of resolve V issue cs]
      migrate_comment_linear_block [of resolve V issue]
    by blast
  have new: "\<forall>c names. CreateComment issue c names \<in> set (fst (migrate_comment_jira W issue c))
         \<longrightarrow> list_all (\<lambda>a. jw_file_opens W (attachment_file_path a)) (comment_attachments c)
              \<and> map (jw_upload W issue) (comment_attachments c) = map Some names"
    using migrate_comment_jira_uploaded [of issue _ _ W] by blast
  from old new show ?thesis by blast
qed

text \<open>
  A run of C5 on a comment with one attachment followed by a comment without, and on the
  first of them against a server that refuses every upload: the comment is not created.
\<close>

theorem comments_and_attachments_order_witness:
  "fst (migrate_comments_jira kind_jira_world (py ''K-43'') [comment9, comment10])
     = [CreateAttachment (py ''K-43'') screenshot,
        CreateComment (py ''K-43'') comment9 [py ''shot.png''],
        CreateComment (py ''K-43'') comment10 []]
   \<and> comment_created (fst (migrate_comments_jira kind_jira_world (py ''K-43'') [comment9, comment10]))
        (py ''K-43'') comment9
   \<and> attachments_before_comment (fst (migrate_comments_jira kind_jira_world (py ''K-43'') [comment9, comment10]))
        (py ''K-43'') comment9
   \<and> fst (migrate_comment_jira kind_jira_world (py ''K-43'') comment9)
     = map (CreateAttachment (py ''K-43'')) (comment_attachments comment9)
       @ [CreateComment (py ''K-43'') comment9 [py ''shot.png'']]
   \<and> map (jw_upload kind_jira_world (py ''K-43'')) (comment_attachments comment9)
     = map Some [py ''shot.png'']
   \<and> fst (migrate_comment_jira refusing_jira_world (py ''K-43'') comment9)
     = [CreateAttachment (py ''K-43'') screenshot]
   \<and> (\<forall>names. CreateComment (py ''K-43'') comment9 names
          \<notin> set (fst (migrate_comment_jira refusing_jira_world (py ''K-43'') comment9)))"
proof -
  let ?t = "fst (migrate_comments_jira kind_jira_world (py ''K-43'') [comment9, comment10])"
  have b9: "fst (migrate_comment_jira kind_jira_world (py ''K-43'') comment9)
      = [CreateAttachment (py ''K-43'') screenshot, CreateComment (py ''K-43'') comment9 [py ''shot.png'']]"
    by (simp add: migrate_comment_jira_def kind_jira_world_def comment9_def screenshot_def)
  have b10: "fst (migrate_comment_jira kind_jira_world (py ''K-43'') comment10)
      = [CreateComment (py ''K-43'') comment10 []]"
    by (simp add: migrate_comment_jira_def comment10_def)
  note t = comments_and_attachments_order [of kind_jira_world "py ''K-43''" "[comment9, comment10]"
      get_attachment_path_call kind_linear_world]
  note t1 = t [THEN conjunct1]
  note t2 = t [THEN conjunct2, THEN conjunct1]
  note t3 = t [THEN conjunct2, THEN conjunct2, THEN conjunct1]
  have e: "?t = [CreateAttachment (py ''K-43'') screenshot,
        CreateComment (py ''K-43'') comment9 [py ''shot.png''],
        CreateComment (py ''K-43'') comment10 []]"
    unfolding t1 by (simp add: b9 b10)
  have c: "comment_created ?t (py ''K-43'') comment9"
    unfolding e by (simp add: comment_created_def creates_comment_def)
  have a: "attachments_before_comment ?t (py ''K-43'') comment9"
    using t3 [THEN spec, THEN mp, OF c] .
  have i: "CreateComment (py ''K-43'') comment9 [py ''shot.png'']
             \<in> set (fst (migrate_comment_jira kind_jira_world (py ''K-43'') comment9))"
    unfolding b9 by simp
  have f: "fst (migrate_comment_jira kind_jira_world (py ''K-43'') comment9)
     = map (CreateAttachment (py ''K-43'')) (comment_attachments comment9)
       @ [CreateComment (py ''K-43'') comment9 [py ''shot.png'']]"
    using t2 [THEN spec, THEN spec, THEN mp, OF i] .
  note t6 = t [THEN conjunct2, THEN conjunct2, THEN conjunct2, THEN conjunct2, THEN conjunct2]
  have u: "map (jw_upload kind_jira_world (py ''K-43'')) (comment_attachments comment9)
     = map Some [py ''shot.png'']"
    using t6 [THEN spec, THEN spec, THEN mp, OF i] by blast
  have g: "fst (migrate_comment_jira refusing_jira_world (py ''K-43'') comment9)
     = [CreateAttachment (py ''K-43'') screenshot]"
    by (simp add: migrate_comment_jira_def refusing_jira_world_def kind_jira_world_def
          comment9_def screenshot_def)
  note r = comments_and_attachments_order [of refusing_jira_world "py ''K-43''" "[comment9]"
      get_attachment_path_call kind_linear_world]
  note r6 = r [THEN conjunct2, THEN conjunct2, THEN conjunct2, THEN conjunct2, THEN conjunct2]
  have v: "map (jw_upload refusing_jira_world (py ''K-43'')) (comment_attachments comment9)
     \<noteq> map Some names" for names
    by (cases names) (simp_all add: refusing_jira_world_def comment9_def)
  have n: "\<forall>names. CreateComment (py ''K-43'') comment9 names
          \<notin> set (fst (migrate_comment_jira refusing_jira_world (py ''K-43'') comment9))"
    using r6 [THEN spec, THEN spec, THEN mp] v by blast
  from e c a f u g n show ?thesis by blast
qed







text \<open>
  C8. Let the endpoint answer the offsets \<open>0, 100, \<dots>, 100 (k - 1)\<close> with full pages (lists
  of at least \<open>limit = 100\<close> items). If it answers the offset \<open>100 k\<close> with a list shorter
  than the limit, \<open>_paginate\<close> returns the pages and that last list concatenated in order;
  if it answers with a value that is not a list, \<open>_paginate\<close> returns that value unchanged.
  In both cases the requests issued are exactly those at the offsets \<open>0, 100, \<dots>, 100 k\<close>,
  each once, so no item is fetched twice and none is skipped.
\<close>

theorem paginate_concatenates_pages:
  assumes "\<forall>j<k. request page_limit (page_limit * j) = Inr (JList (pages j))
                 \<and> page_limit \<le> length (pages j)"
  shows "(request page_limit (page_limit * k) = Inr (JList last_page) \<and> length last_page < page_limit
            \<longrightarrow> paginate request
                  = Some (Inr (JList (concat (map pages [0..<k]) @ last_page)),
                          map (\<lambda>j. page_limit * j) [0..<Suc k]))
       \<and> (request page_limit (page_limit * k) = Inr (JObject obj)
            \<longrightarrow> paginate request = Some (Inr (JObject obj), map (\<lambda>j. page_limit * j) [0..<Suc k]))"
  using paginate_last [of k request pages last_page] paginate_object [of k request pages obj] assms
  by blast

text \<open>
  A run of C8: the stub over 230 items is fetched with the offsets 0, 100 and 200, and the
  stub answering with one object returns it after the first request.
\<close>

theorem paginate_concatenates_pages_witness:
  "paginate stub_items
     = Some (Inr (JList (concat (map (\<lambda>j. map (\<lambda>i. 100 * j + i) [0..<100]) [0..<2])
                          @ map (\<lambda>i. 200 + i) [0..<30])), [0, 100, 200])
   \<and> paginate stub_object = Some (Inr (JObject ''velocity''), [0])"
proof -
  let ?pages = "\<lambda>j::nat. map (\<lambda>i. 100 * j + i) [0..<100]"
  have full: "\<forall>j<2. stub_items page_limit (page_limit * j) = Inr (JList (?pages j))
                \<and> page_limit \<le> length (?pages j)"
    by (simp add: stub_items_def page_limit_def less_Suc_eq numeral_2_eq_2)
  have last: "stub_items page_limit (page_limit * 2) = Inr (JList (map (\<lambda>i. 200 + i) [0..<30]))
                \<and> length (map (\<lambda>i. 200 + i) [0..<30]) < page_limit"
    by (simp add: stub_items_def page_limit_def)
  have a: "paginate stub_items
     = Some (Inr (JList (concat (map ?pages [0..<2]) @ map (\<lambda>i. 200 + i) [0..<30])),
             map (\<lambda>j. page_limit * j) [0..<Suc 2])"
    using paginate_concatenates_pages [of 2 stub_items ?pages "map (\<lambda>i. 200 + i) [0..<30]"] full last
    by blast
  have none: "\<forall>j<0. stub_object page_limit (page_limit * j) = Inr (JList (?pages j))
                \<and> page_limit \<le> length (?pages j)"
    by simp
  have b: "paginate stub_object = Some (Inr (JObject ''velocity''), map (\<lambda>j. page_limit * j) [0..<Suc 0])"
    using paginate_concatenates_pages [of 0 stub_object ?pages "[]" "''velocity''"] none
    by (simp add: stub_object_def)
  have o: "map (\<lambda>j. page_limit * j) [0..<Suc 2] = [0, 100, 200]"
    by (simp add: page_limit_def upt_rec numeral_2_eq_2)
  from a b o show ?thesis by simp
qed

text \<open>
  C9 as stated fails on two counts. A limiter whose interval is 0 raises
  \<open>ZeroDivisionError\<close> in \<open>acquire\<close>. And the allowance is not increased by \<open>t * R / I\<close>: for
  one token per 49 seconds, an empty bucket and 49 seconds passed, \<open>t * R / I\<close> is 1 and the
  caller should pass at once (also when \<open>49 * 1 / 49\<close> is computed in doubles, which gives
  the double 1), but the code computes \<open>49 * (1 / 49)\<close> in doubles, which is \<open>1 - 2 ^ -53\<close>,
  and suspends the caller for \<open>2 ^ -53\<close> seconds.
\<close>

theorem acquire_counterexample:
  "acquire py_float (Dbl 1 0) (stuck_limiter (Dbl 6 0) (Dbl 0 0))
     = (Inl ZeroDivisionError, stuck_limiter (Dbl 6 0) (Dbl 1 0))
   \<and> acquire py_float (Dbl 49 0) (slow_limiter (Dbl 0 0) (Dbl 0 0))
     = (Inr (Some (Dbl 1 (- 53))), slow_limiter (Dbl 0 0) (Dbl 49 0))
   \<and> dbl_div (dbl_mul (Dbl 49 0) (Dbl 1 0)) (Dbl 49 0) = Some (Dbl 4503599627370496 (- 52))
   \<and> \<not> dbl_less (Dbl 4503599627370496 (- 52)) (Dbl 1 0)"
proof -
  have z: "dbl_div (Dbl 6 0) (Dbl 0 0) = None"
    by (simp add: dbl_eval)
  have q: "dbl_div (Dbl 1 0) (Dbl 49 0) = Some (Dbl 5882252574524729 (- 58))"
    by (simp add: dbl_eval)
  have t: "dbl_sub (Dbl 49 0) (Dbl 0 0) = Dbl 49 0"
    by (simp add: dbl_eval)
  have p: "dbl_mul (Dbl 49 0) (Dbl 5882252574524729 (- 58)) = Dbl 9007199254740991 (- 53)"
    by (simp add: dbl_eval)
  have a: "dbl_add (Dbl 0 0) (Dbl 9007199254740991 (- 53)) = Dbl 9007199254740991 (- 53)"
    by (simp add: dbl_eval)
  have c: "\<not> dbl_less (Dbl 1 0) (Dbl 9007199254740991 (- 53))"
    by (simp add: dbl_eval)
  have l: "dbl_less (Dbl 9007199254740991 (- 53)) (Dbl 1 0)"
    by (simp add: dbl_eval)
  have s: "dbl_sub (Dbl 1 0) (Dbl 9007199254740991 (- 53)) = Dbl 1 (- 53)"
    by (simp add: dbl_eval)
  have "acquire py_float (Dbl 1 0) (stuck_limiter (Dbl 6 0) (Dbl 0 0))
     = (Inl ZeroDivisionError, stuck_limiter (Dbl 6 0) (Dbl 1 0))"
    by (simp add: acquire_def stuck_limiter_def py_float_def z)
  moreover have "acquire py_float (Dbl 49 0) (slow_limiter (Dbl 0 0) (Dbl 0 0))
     = (Inr (Some (Dbl 1 (- 53))), slow_limiter (Dbl 0 0) (Dbl 49 0))"
    by (simp add: acquire_def slow_limiter_def py_float_def q t p a c l s)
  moreover have "dbl_mul (Dbl 49 0) (Dbl 1 0) = Dbl 49 0"
    by (simp add: dbl_eval)
  moreover have "dbl_div (Dbl 49 0) (Dbl 49 0) = Some (Dbl 4503599627370496 (- 52))"
    by (simp add: dbl_eval)
  moreover have "\<not> dbl_less (Dbl 4503599627370496 (- 52)) (Dbl 1 0)"
    by (simp add: dbl_eval)
  ultimately show ?thesis by simp
qed

text \<open>
  C9, amended. When the quotient \<open>R / I\<close> can be taken, that is when the interval is not 0,
  \<open>acquire\<close> does not fail: with \<open>t\<close> the time since the last check, the allowance is
  first increased by \<open>t * (R / I)\<close>, each operation being one of the interpreter's
  arithmetic with its rounding, and capped at the capacity, which is \<open>R\<close>; if it is then
  below 1, the caller is suspended for \<open>1\<close> minus the allowance and the allowance becomes
  0; otherwise the allowance is lowered by 1 and the caller is not suspended. When the
  interval is 0, \<open>acquire\<close> raises \<open>ZeroDivisionError\<close> after setting the time of the last
  check.
\<close>

theorem acquire_token_bucket:
  "(f_div F (rate self) (interval self) = Some per_second \<longrightarrow>
      (let t = f_sub F current (last_check self);
           a = f_add F (allowance self) (f_mul F t per_second);
           b = (if f_less F (rate self) a then rate self else a)
       in acquire F current self =
            (if f_less F b (f_one F)
             then (Inr (Some (f_sub F (f_one F) b)), self\<lparr>last_check := current, allowance := f_zero F\<rparr>)
             else (Inr None, self\<lparr>last_check := current, allowance := f_sub F b (f_one F)\<rparr>))))
   \<and> (f_div F (rate self) (interval self) = None \<longrightarrow>
        acquire F current self = (Inl ZeroDivisionError, self\<lparr>last_check := current\<rparr>))
   \<and> (dbl_div x y = None \<longleftrightarrow> mantissa y = 0)"
  by (simp add: acquire_def Let_def dbl_div_def)

text \<open>
  Runs of C9 on the limiter of the tracker client (6 tokens per 5 seconds) in doubles.
  With half a token left and a quarter of a second passed, \<open>6 / 5\<close> is
  \<open>5404319552844595 * 2 ^ -52\<close>, the allowance becomes \<open>7205759403792794 * 2 ^ -53\<close> (the double
  nearest to 0.8) and the caller waits \<open>1801439850948198 * 2 ^ -53\<close> seconds (printed by Python
  as 0.19999999999999996, not 0.2). With 3 tokens left and one second passed the allowance
  becomes the double nearest to 4.2 and one token is taken from it.
\<close>

theorem acquire_token_bucket_witness:
  "dbl_div (Dbl 6 0) (Dbl 5 0) = Some (Dbl 5404319552844595 (- 52))
   \<and> acquire py_float (Dbl 41 (- 2)) (tracker_limiter (Dbl 1 (- 1)) (Dbl 10 0))
     = (Inr (Some (Dbl 1801439850948198 (- 53))), tracker_limiter (Dbl 0 0) (Dbl 41 (- 2)))
   \<and> acquire py_float (Dbl 11 0) (tracker_limiter (Dbl 3 0) (Dbl 10 0))
     = (Inr None, tracker_limiter (Dbl 3602879701896397 (- 50)) (Dbl 11 0))
   \<and> acquire py_float (Dbl 1 0) (stuck_limiter (Dbl 6 0) (Dbl 0 0))
     = (Inl ZeroDivisionError, stuck_limiter (Dbl 6 0) (Dbl 1 0))"
proof -
  have q: "dbl_div (Dbl 6 0) (Dbl 5 0) = Some (Dbl 5404319552844595 (- 52))"
    by (simp add: dbl_eval)
  have z: "dbl_div (Dbl 6 0) (Dbl 0 0) = None"
    by (simp add: dbl_eval)
  have t1: "dbl_sub (Dbl 41 (- 2)) (Dbl 10 0) = Dbl 1 (- 2)"
    by (simp add: dbl_eval)
  have p1: "dbl_mul (Dbl 1 (- 2)) (Dbl 5404319552844595 (- 52)) = Dbl 5404319552844595 (- 54)"
    by (simp add: dbl_eval)
  have a1: "dbl_add (Dbl 1 (- 1)) (Dbl 5404319552844595 (- 54)) = Dbl 7205759403792794 (- 53)"
    by (simp add: dbl_eval)
  have c1: "\<not> dbl_less (Dbl 6 0) (Dbl 7205759403792794 (- 53))"
    by (simp add: dbl_eval)
  have l1: "dbl_less (Dbl 7205759403792794 (- 53)) (Dbl 1 0)"
    by (simp add: dbl_eval)
  have s1: "dbl_sub (Dbl 1 0) (Dbl 7205759403792794 (- 53)) = Dbl 1801439850948198 (- 53)"
    by (simp add: dbl_eval)
  have t2: "dbl_sub (Dbl 11 0) (Dbl 10 0) = Dbl 1 0"
    by (simp add: dbl_eval)
  have p2: "dbl_mul (Dbl 1 0) (Dbl 5404319552844595 (- 52)) = Dbl 5404319552844595 (- 52)"
    by (simp add: dbl_eval)
  have a2: "dbl_add (Dbl 3 0) (Dbl 5404319552844595 (- 52)) = Dbl 4728779608739021 (- 50)"
    by (simp add: dbl_eval)
  have c2: "\<not> dbl_less (Dbl 6 0) (Dbl 4728779608739021 (- 50))"
    by (simp add: dbl_eval)
  have l2: "\<not> dbl_less (Dbl 4728779608739021 (- 50)) (Dbl 1 0)"
    by (simp add: dbl_eval)
  have s2: "dbl_sub (Dbl 4728779608739021 (- 50)) (Dbl 1 0) = Dbl 3602879701896397 (- 50)"
    by (simp add: dbl_eval)
  have a: "acquire py_float (Dbl 41 (- 2)) (tracker_limiter (Dbl 1 (- 1)) (Dbl 10 0))
     = (Inr (Some (Dbl 1801439850948198 (- 53))), tracker_limiter (Dbl 0 0) (Dbl 41 (- 2)))"
    using acquire_token_bucket [of py_float "tracker_limiter (Dbl 1 (- 1)) (Dbl 10 0)"
        "Dbl 5404319552844595 (- 52)" "Dbl 41 (- 2)"]
    by (simp add: tracker_limiter_def py_float_def q t1 p1 a1 c1 l1 s1)
  have b: "acquire py_float (Dbl 11 0) (tracker_limiter (Dbl 3 0) (Dbl 10 0))
     = (Inr None, tracker_limiter (Dbl 3602879701896397 (- 50)) (Dbl 11 0))"
    using acquire_token_bucket [of py_float "tracker_limiter (Dbl 3 0) (Dbl 10 0)"
        "Dbl 5404319552844595 (- 52)" "Dbl 11 0"]
    by (simp add: tracker_limiter_def py_float_def q t2 p2 a2 c2 l2 s2)
  have c: "acquire py_float (Dbl 1 0) (stuck_limiter (Dbl 6 0) (Dbl 0 0))
     = (Inl ZeroDivisionError, stuck_limiter (Dbl 6 0) (Dbl 1 0))"
    using acquire_token_bucket [of py_float "stuck_limiter (Dbl 6 0) (Dbl 0 0)" _ "Dbl 1 0"]
    by (simp add: stuck_limiter_def py_float_def z)
  from q a b c show ?thesis by blast
qed

text \<open>
  C10. The title of the issue that the Linear migrator creates for a story, and of the
  sub-issue it creates for a task, is the sanitized form of the source text: only
  alphanumeric characters, spaces, hyphens and underscores are kept, the kept text is cut
  to 50 characters and then stripped of surrounding whitespace. So the title has at most
  50 characters, none of them outside the permitted set, and no whitespace at either end.
\<close>

theorem linear_titles_are_sanitized:
  "is_sanitized_form U (story_name s) (req_title (story_issue_request U s team))
   \<and> length (task_issue_requests U s parent team) = length (story_tasks s)
   \<and> (\<forall>i < length (story_tasks s).
        is_sanitized_form U (task_description (story_tasks s ! i))
          (req_title (task_issue_requests U s parent team ! i)))"
  by (simp add: story_issue_request_def task_issue_requests_def task_issue_request_def
        sanitize_name_is_sanitized_form)

text \<open>
  A run of C10 on \<open>login_story\<close>.
  Both titles differ from the source text.
\<close>

theorem linear_titles_are_sanitized_witness:
  "req_title (story_issue_request ascii login_story (py ''T'')) = py ''Fix loginlogout v2''
   \<and> map req_title (task_issue_requests ascii login_story (py ''I'') (py ''T'')) = [py ''tidy_up'']
   \<and> is_sanitized_form ascii (py ''Fix: login/logout (v2)!'') (py ''Fix loginlogout v2'')
   \<and> is_sanitized_form ascii (py '' tidy_up? '') (py ''tidy_up'')"
proof -
  let ?s = login_story
  have t1: "req_title (story_issue_request ascii ?s (py ''T'')) = py ''Fix loginlogout v2''"
    by (simp add: login_story_def story_issue_request_def sanitize_name_def slice_to_def strip_def
          lstrip_def name_char_ok_def ascii_def py_def)
  have t2: "map req_title (task_issue_requests ascii ?s (py ''I'') (py ''T'')) = [py ''tidy_up'']"
    by (simp add: login_story_def task_issue_requests_def task_issue_request_def sanitize_name_def
          slice_to_def strip_def lstrip_def name_char_ok_def ascii_def py_def)
  from linear_titles_are_sanitized [of ascii ?s "py ''T''" "py ''I''"]
  have a: "is_sanitized_form ascii (story_name ?s) (req_title (story_issue_request ascii ?s (py ''T'')))"
    and b: "\<forall>i < length (story_tasks ?s).
        is_sanitized_form ascii (task_description (story_tasks ?s ! i))
          (req_title (task_issue_requests ascii ?s (py ''I'') (py ''T'') ! i))"
    by blast+
  from a t1 have c: "is_sanitized_form ascii (py ''Fix: login/logout (v2)!'') (py ''Fix loginlogout v2'')"
    by (simp add: login_story_def)
  from b have "is_sanitized_form ascii (task_description (story_tasks ?s ! 0))
          (map req_title (task_issue_requests ascii ?s (py ''I'') (py ''T'')) ! 0)"
    by (simp add: task_issue_requests_def login_story_def)
  then have d: "is_sanitized_form ascii (py '' tidy_up? '') (py ''tidy_up'')"
    unfolding t2 by (simp add: login_story_def)
  from t1 t2 c d show ?thesis by blast
qed


end
